theory Spec2Isabelle
  imports Complex_Main
begin

section \<open>Numbers, grids and parameters\<close>

text \<open>
  The C sources compute on \<^verbatim>\<open>double\<close> and \<^verbatim>\<open>float\<close>. They are embedded as
  \<^typ>\<open>real\<close>: every value is finite and arithmetic is exact, so rounding, NaN and
  infinity are outside the model, and a division by zero gives 0 here where C gives an
  infinity or a NaN. C \<^verbatim>\<open>pow(x, y)\<close> is \<open>x powr y\<close>, which agrees with it for a
  positive base. A lattice buffer (\<^verbatim>\<open>float *\<close> of \<^verbatim>\<open>HII_TOT_NUM_PIXELS\<close> cells) is a
  function from the linear cell index \<^verbatim>\<open>HII_R_INDEX(x,y,z)\<close> to its value; the padded
  layout of the real-space view of an \<^verbatim>\<open>fftwf_complex\<close> buffer
  (\<^verbatim>\<open>HII_R_FFT_INDEX\<close>) is a matter of memory layout, and such a buffer is indexed by
  the same linear cell index. The OpenMP loops over the lattice are run sequentially
  in increasing cell index.
\<close>

type_synonym grid = "nat \<Rightarrow> real"

datatype error = ValueError | InfinityorNaNError | PhotonConsError

record FlagOptions =
  USE_HALO_FIELD :: bool
  USE_MINI_HALOS :: bool
  USE_MASS_DEPENDENT_ZETA :: bool
  USE_TS_FLUCT :: bool
  INHOMO_RECO :: bool
  CELL_RECOMB :: bool
  PHOTON_CONS_TYPE :: int
  FIX_VCB_AVG :: bool
  FIXED_HALO_GRIDS :: bool

record UserParams =
  HII_TOT_NUM_PIXELS :: nat
  HII_DIM :: nat
  BOX_LEN :: real
  NO_RNG :: bool
  USE_RELATIVE_VELOCITIES :: bool
  AVG_BELOW_SAMPLER :: bool
  SAMPLER_MIN_MASS :: real
  VOLUME :: real

record CosmoParams =
  OMb :: real
  OMm :: real

record AstroParams =
  F_STAR10 :: real
  F_STAR7_MINI :: real
  F_ESC10 :: real
  F_ESC7_MINI :: real
  HII_EFF_FACTOR :: real
  M_TURN :: real
  t_STAR :: real

record GlobalParams =
  FIND_BUBBLE_ALGORITHM :: int
  N_POISSON :: int
  HII_ROUND_ERR :: real
  ZPRIME_STEP_FACTOR :: real
  Pop2_ion :: real
  Pop3_ion :: real
  ALPHA_UVB :: real
  R_XLy_MAX :: real
  NUM_FILTER_STEPS_FOR_Ts :: nat
  Z_HEAT_MAX :: real
  VAVG :: real
  M_MAX_INTEGRAL :: real

text \<open>
  The macros of \<^verbatim>\<open>Constants.h\<close>, which is not among the sources: their values are
  parameters of the model. So is \<^verbatim>\<open>VOLUME\<close>, a macro of \<^verbatim>\<open>indexing.h\<close> over the
  user parameters.
\<close>

record Constants =
  TINY :: real
  FRACT_FLOAT_ERR :: real
  RHOcrit :: real
  L_FACTOR :: real
  CMperMPC :: real
  SIGMA_HI :: real
  N_b0 :: real

text \<open>The parameter structs every function reaches through the \<^verbatim>\<open>*_global\<close> pointers.\<close>

record Params =
  flag_options :: FlagOptions
  user_params :: UserParams
  cosmo_params :: CosmoParams
  astro_params :: AstroParams
  global_params :: GlobalParams
  consts_h :: Constants

text \<open>
  The external collaborators (cosmology, thermochemistry, recombination and bubble
  helpers), declared in headers only. They are parameters of the model; a theorem
  that quantifies over them holds whatever they compute.
\<close>

record Kernels =
  dtdz :: "real \<Rightarrow> real"
  t_hubble :: "real \<Rightarrow> real"
  RtoM :: "real \<Rightarrow> real"
  minimum_source_mass :: "real \<Rightarrow> real"
  atomic_cooling_threshold :: "real \<Rightarrow> real"
  get_fesc_fit :: "real \<Rightarrow> real"
  T_RECFAST :: "real \<Rightarrow> real"
  xion_RECFAST :: "real \<Rightarrow> real"
  cT_approx :: "real \<Rightarrow> real"
  dicke :: "real \<Rightarrow> real"
  splined_recombination_rate :: "real \<Rightarrow> real \<Rightarrow> real"
  ComputePartiallyIoinizedTemperature :: "real \<Rightarrow> real \<Rightarrow> real"
  ComputeFullyIoinizedTemperature :: "real \<Rightarrow> real \<Rightarrow> real \<Rightarrow> real"
  in_sphere :: "real \<Rightarrow> nat \<Rightarrow> nat \<Rightarrow> bool"
  drdz :: "real \<Rightarrow> real"
  EvaluateSigma :: "real \<Rightarrow> real"

text \<open>
  Locals that the source reads without ever assigning them: the two accumulators of
  \<^verbatim>\<open>calculate_fcoll_grid\<close> (an OpenMP sum reduction adds the partial sums to the
  value the variable already holds), its three collapse-fraction locals in the one
  flag combination that assigns none of them, and the error flag of
  \<^verbatim>\<open>set_recombination_rates\<close>. The value each happens to hold is a parameter.
\<close>

record Uninit =
  f_coll_total0 :: real
  f_coll_MINI_total0 :: real
  Splined_Fcoll_MINI0 :: real
  prev_Splined_Fcoll0 :: real
  prev_Splined_Fcoll_MINI0 :: real
  finite_error0 :: bool

section \<open>The ionisation excursion-set solver (IonisationBox.c)\<close>

record IonBoxConstants =
  redshift :: real
  stored_redshift :: real
  photoncons_adjustment_factor :: real
  dz :: real
  fabs_dtdz :: real
  growth_factor :: real
  prev_growth_factor :: real
  fix_mean :: bool
  filter_recombinations :: bool
  mturn_a_nofb :: real
  ion_eff_factor :: real
  ion_eff_factor_mini :: real
  ion_eff_factor_gl :: real
  ion_eff_factor_mini_gl :: real
  gamma_prefactor :: real
  gamma_prefactor_mini :: real
  TK_nofluct :: real
  adia_TK_term :: real
  M_min :: real
  pixel_mass :: real

record RadiusSpec =
  R :: real
  R_index :: nat
  f_coll_grid_mean :: real
  f_coll_grid_mean_MINI :: real

record IonizedBox =
  xH_box :: grid
  z_re_box :: grid
  Gamma12_box :: grid
  MFP_box :: grid
  dNrec_box :: grid
  temp_kinetic_all_gas :: grid
  Fcoll :: grid
  Fcoll_MINI :: grid
  mean_f_coll :: real
  mean_f_coll_MINI :: real

record TsBox =
  x_e_box :: grid
  Tk_box :: grid
  J_21_LW_box :: grid

text \<open>
  \<^verbatim>\<open>set_ionbox_constants\<close>, for the fields the functions below read. The fields
  \<^verbatim>\<open>TK_nofluct\<close> and \<^verbatim>\<open>adia_TK_term\<close> are left unassigned by the source under
  \<^verbatim>\<open>USE_TS_FLUCT\<close>, where nothing reads them; they are 0 here.
\<close>

definition set_ionbox_constants ::
  "Params \<Rightarrow> Kernels \<Rightarrow> real \<Rightarrow> real \<Rightarrow> IonBoxConstants" where
  "set_ionbox_constants P K z prev_z =
    (let fo = flag_options P; ap = astro_params P; gp = global_params P;
         cp = cosmo_params P; up = user_params P; ch = consts_h P;
         dz0 = (if prev_z < 1 then (1 + z) * (ZPRIME_STEP_FACTOR gp - 1) else z - prev_z);
         fesc_10 = (if PHOTON_CONS_TYPE fo = 3 then get_fesc_fit K z else F_ESC10 ap);
         t_star_sec = t_STAR ap * t_hubble K z;
         mta0 = (if USE_MINI_HALOS fo then atomic_cooling_threshold K z else M_TURN ap);
         mta = (if mta0 < M_TURN ap then M_TURN ap else mta0);
         gl = (if USE_MASS_DEPENDENT_ZETA fo then Pop2_ion gp * F_STAR10 ap * fesc_10
               else HII_EFF_FACTOR ap);
         gl_mini = (if USE_MASS_DEPENDENT_ZETA fo
               then Pop3_ion gp * F_STAR7_MINI ap * F_ESC7_MINI ap else 0);
         ief = (if USE_HALO_FIELD fo then 1 else gl);
         ief_mini = (if USE_HALO_FIELD fo then 1 else gl_mini);
         pixel_length = BOX_LEN up / real (HII_DIM up);
         gp0 = (1 + z) powr 2 * CMperMPC ch * SIGMA_HI ch * ALPHA_UVB gp
                 / (ALPHA_UVB gp + 2.75) * N_b0 ch * ief / (1 / 10 ^ 12);
         gpf = (if USE_HALO_FIELD fo then gp0 / (RHOcrit ch * OMb cp) else gp0 / t_star_sec)
     in \<lparr> redshift = z,
          stored_redshift = z,
          photoncons_adjustment_factor = 1,
          dz = dz0,
          fabs_dtdz = \<bar>dtdz K z\<bar> / 10 ^ 15,
          growth_factor = dicke K z,
          prev_growth_factor = dicke K prev_z,
          fix_mean = (\<not> USE_HALO_FIELD fo),
          filter_recombinations = (INHOMO_RECO fo \<and> \<not> CELL_RECOMB fo),
          mturn_a_nofb = mta,
          ion_eff_factor = ief,
          ion_eff_factor_mini = ief_mini,
          ion_eff_factor_gl = gl,
          ion_eff_factor_mini_gl = gl_mini,
          gamma_prefactor = gpf,
          gamma_prefactor_mini = gpf * ief_mini / ief,
          TK_nofluct = (if USE_TS_FLUCT fo then 0 else T_RECFAST K z),
          adia_TK_term = (if USE_TS_FLUCT fo then 0 else cT_approx K z),
          M_min = minimum_source_mass K z,
          pixel_mass = OMm cp * RHOcrit ch * pixel_length powr 3 \<rparr>)"

text \<open>
  \<^verbatim>\<open>set_recombination_rates\<close>: the body of the cell loop, the loop, and the check
  of the error flag after it. With finite values \<^verbatim>\<open>isfinite(dNrec)\<close> holds, so the
  flag keeps the value it had at entry.
\<close>

definition recombination_cell ::
  "Kernels \<Rightarrow> IonBoxConstants \<Rightarrow> grid \<Rightarrow> IonizedBox \<Rightarrow> IonizedBox \<Rightarrow> nat \<Rightarrow> IonizedBox" where
  "recombination_cell K c density previous_ionize_box box ct =
    (let curr_dens = 1 + density ct;
         z_eff = curr_dens powr (1 / 3) * (1 + stored_redshift c);
         dNrec = splined_recombination_rate K (z_eff - 1) (Gamma12_box box ct)
                   * fabs_dtdz c * dz c * (1 - xH_box box ct)
     in box\<lparr> dNrec_box := (dNrec_box box)(ct := dNrec_box previous_ionize_box ct + dNrec) \<rparr>)"

definition set_recombination_rates ::
  "Params \<Rightarrow> Kernels \<Rightarrow> Uninit \<Rightarrow> IonBoxConstants \<Rightarrow> grid \<Rightarrow> IonizedBox \<Rightarrow> IonizedBox
     \<Rightarrow> error + IonizedBox" where
  "set_recombination_rates P K U c density previous_ionize_box box =
    (let box' = fold (\<lambda>ct b. recombination_cell K c density previous_ionize_box b ct)
                  [0 ..< HII_TOT_NUM_PIXELS (user_params P)] box
     in if finite_error0 U then Inl InfinityorNaNError else Inr box')"


subsection \<open>Filtered grids and the collapse-fraction grid\<close>

text \<open>
  The real-space grids \<^verbatim>\<open>copy_filter_transform\<close> leaves in \<^verbatim>\<open>struct FilteredGrids\<close>
  for one radius. The k-space filters and the transforms are external, so these grids
  are inputs of the model, one set for each radius.
\<close>

record FilteredGrids =
  deltax_filtered :: grid
  xe_filtered :: grid
  N_rec_filtered :: grid
  prev_deltax_filtered :: grid
  log10_Mturnover_filtered :: grid
  log10_Mturnover_MINI_filtered :: grid
  stars_filtered :: grid
  sfr_filtered :: grid

text \<open>
  The interpolation tables as initialised for one radius. The arguments the source
  passes that are fixed for the radius (mass limits, \<open>\<sigma>\<close> at the maximum mass) are part
  of the table; density, turnover mass, growth factor and the final flag are passed.
\<close>

record Tables =
  EvaluateNion_Conditional :: "real \<Rightarrow> real \<Rightarrow> real \<Rightarrow> bool \<Rightarrow> real"
  EvaluateNion_Conditional_MINI :: "real \<Rightarrow> real \<Rightarrow> real \<Rightarrow> bool \<Rightarrow> real"
  EvaluateFcoll_delta :: "real \<Rightarrow> real \<Rightarrow> real"

definition clip_grid :: "nat \<Rightarrow> real \<Rightarrow> real \<Rightarrow> grid \<Rightarrow> grid" where
  \<comment> \<open>the in-place clip of \<^verbatim>\<open>clip_and_get_extrema\<close>: \<^verbatim>\<open>fmaxf(fmin(curr,upper),lower)\<close>\<close>
  "clip_grid n lower upper g = (\<lambda>i. if i < n then max (min (g i) upper) lower else g i)"

definition LOG10_MTURN_MAX :: real where
  "LOG10_MTURN_MAX = 10"

definition setup_integration_tables :: "Params \<Rightarrow> FilteredGrids \<Rightarrow> FilteredGrids" where
  \<comment> \<open>what the function does to the grids; the tables it initialises are \<^typ>\<open>Tables\<close>\<close>
  "setup_integration_tables P fg =
    (let fo = flag_options P; n = HII_TOT_NUM_PIXELS (user_params P)
     in if USE_MASS_DEPENDENT_ZETA fo then
          (let fg1 = fg\<lparr> deltax_filtered := clip_grid n (- 1) (10 ^ 6) (deltax_filtered fg) \<rparr>
           in if USE_MINI_HALOS fo then
                fg1\<lparr> prev_deltax_filtered := clip_grid n (- 1) (10 ^ 6) (prev_deltax_filtered fg1),
                     log10_Mturnover_filtered :=
                       clip_grid n 0 LOG10_MTURN_MAX (log10_Mturnover_filtered fg1),
                     log10_Mturnover_MINI_filtered :=
                       clip_grid n 0 LOG10_MTURN_MAX (log10_Mturnover_MINI_filtered fg1) \<rparr>
              else fg1)
        else fg)"

definition clip_filtered_cell ::
  "Params \<Rightarrow> IonBoxConstants \<Rightarrow> FilteredGrids \<Rightarrow> nat \<Rightarrow> FilteredGrids" where
  \<comment> \<open>\<^verbatim>\<open>calculate_fcoll_grid\<close>: "clip the filtered grids to physical values"\<close>
  "clip_filtered_cell P c fg ct =
    (let fo = flag_options P;
         fg1 = fg\<lparr> deltax_filtered := (deltax_filtered fg)
                  (ct := max (deltax_filtered fg ct) (- 1 + FRACT_FLOAT_ERR (consts_h P))) \<rparr>;
         fg2 = (if filter_recombinations c
                then fg1\<lparr> N_rec_filtered := (N_rec_filtered fg1)
                            (ct := max (N_rec_filtered fg1 ct) 0) \<rparr>
                else fg1);
         fg3 = (if USE_TS_FLUCT fo
                then fg2\<lparr> xe_filtered := (xe_filtered fg2)
                            (ct := min (max (xe_filtered fg2 ct) 0) (999 / 1000)) \<rparr>
                else fg2)
     in if USE_HALO_FIELD fo
        then fg3\<lparr> stars_filtered := (stars_filtered fg3)(ct := max (stars_filtered fg3 ct) 0),
                  sfr_filtered := (sfr_filtered fg3)(ct := max (sfr_filtered fg3 ct) 0) \<rparr>
        else fg3)"

definition splined_fcolls ::
  "Params \<Rightarrow> Uninit \<Rightarrow> Tables \<Rightarrow> IonBoxConstants \<Rightarrow> IonizedBox \<Rightarrow> FilteredGrids \<Rightarrow> nat
     \<Rightarrow> real \<times> real \<times> real \<times> real" where
  \<comment> \<open>\<^verbatim>\<open>(Splined_Fcoll, Splined_Fcoll_MINI, prev_Splined_Fcoll, prev_Splined_Fcoll_MINI)\<close>\<close>
  "splined_fcolls P U T c previous_ionize_box fg ct =
    (let fo = flag_options P
     in if USE_HALO_FIELD fo then (stars_filtered fg ct, 0, 0, 0)
        else
          (let curr_dens = deltax_filtered fg ct
           in if USE_MASS_DEPENDENT_ZETA fo then
                (if USE_MINI_HALOS fo then
                   (let log10_Mturnover = log10_Mturnover_filtered fg ct;
                        log10_Mturnover_MINI = log10_Mturnover_MINI_filtered fg ct;
                        Splined_Fcoll_MINI = EvaluateNion_Conditional_MINI T curr_dens
                           log10_Mturnover_MINI (growth_factor c) False;
                        prev_dens = prev_deltax_filtered fg ct;
                        prevs =
                          (if mean_f_coll_MINI previous_ionize_box * ion_eff_factor_mini_gl c
                                + mean_f_coll previous_ionize_box * ion_eff_factor_gl c
                                > 1 / 10 ^ 4
                           then (EvaluateNion_Conditional T prev_dens log10_Mturnover
                                   (prev_growth_factor c) True,
                                 EvaluateNion_Conditional_MINI T prev_dens log10_Mturnover_MINI
                                   (prev_growth_factor c) True)
                           else (0, 0))
                    in (EvaluateNion_Conditional T curr_dens log10_Mturnover
                          (growth_factor c) True,
                        Splined_Fcoll_MINI, fst prevs, snd prevs))
                 else (EvaluateNion_Conditional T curr_dens (log 10 (mturn_a_nofb c))
                         (growth_factor c) True,
                       Splined_Fcoll_MINI0 U, prev_Splined_Fcoll0 U, prev_Splined_Fcoll_MINI0 U))
              else (EvaluateFcoll_delta T curr_dens (growth_factor c),
                    Splined_Fcoll_MINI0 U, prev_Splined_Fcoll0 U, prev_Splined_Fcoll_MINI0 U)))"

definition clamp_splined :: "real \<Rightarrow> real" where
  \<comment> \<open>\<^verbatim>\<open>if (S > 1.) S = 1.; if (S < 0.) S = 1e-40;\<close>\<close>
  "clamp_splined S = (let S1 = (if S > 1 then 1 else S) in if S1 < 0 then 1 / 10 ^ 40 else S1)"

definition trapezoid_fcoll :: "real \<Rightarrow> real \<Rightarrow> real \<Rightarrow> real" where
  \<comment> \<open>the value stored in \<^verbatim>\<open>box->Fcoll\<close> (and \<^verbatim>\<open>box->Fcoll_MINI\<close>) with minihalos\<close>
  "trapezoid_fcoll prev_Fcoll Splined prev_Splined =
    (let F = prev_Fcoll + clamp_splined Splined - clamp_splined prev_Splined
     in if F > 1 then 1 else F)"

definition fcoll_cell ::
  "Params \<Rightarrow> Uninit \<Rightarrow> Tables \<Rightarrow> IonBoxConstants \<Rightarrow> RadiusSpec \<Rightarrow> IonizedBox \<Rightarrow> nat
     \<Rightarrow> IonizedBox \<times> FilteredGrids \<times> real \<times> real
     \<Rightarrow> IonizedBox \<times> FilteredGrids \<times> real \<times> real" where
  "fcoll_cell P U T c rspec previous_ionize_box ct s =
    (case s of (box, fg, f_coll_total, f_coll_MINI_total) \<Rightarrow>
      (let fo = flag_options P;
           fc_r_idx = (if USE_MINI_HALOS fo then R_index rspec else 0);
           i = fc_r_idx * HII_TOT_NUM_PIXELS (user_params P) + ct;
           fg' = clip_filtered_cell P c fg ct;
           sp = splined_fcolls P U T c previous_ionize_box fg' ct
       in case sp of (Splined_Fcoll, Splined_Fcoll_MINI, prev_Splined_Fcoll,
                      prev_Splined_Fcoll_MINI) \<Rightarrow>
          if USE_MINI_HALOS fo \<and> \<not> USE_HALO_FIELD fo then
            (let F = trapezoid_fcoll (Fcoll previous_ionize_box i) Splined_Fcoll
                       prev_Splined_Fcoll;
                 FM = trapezoid_fcoll (Fcoll_MINI previous_ionize_box i) Splined_Fcoll_MINI
                       prev_Splined_Fcoll_MINI
             in (box\<lparr> Fcoll := (Fcoll box)(i := F), Fcoll_MINI := (Fcoll_MINI box)(i := FM) \<rparr>,
                 fg', f_coll_total + F, f_coll_MINI_total + FM))
          else (box\<lparr> Fcoll := (Fcoll box)(i := Splined_Fcoll) \<rparr>,
                fg', f_coll_total + Splined_Fcoll, f_coll_MINI_total)))"

definition calculate_fcoll_grid ::
  "Params \<Rightarrow> Uninit \<Rightarrow> Tables \<Rightarrow> IonBoxConstants \<Rightarrow> RadiusSpec \<Rightarrow> IonizedBox \<Rightarrow> IonizedBox
     \<Rightarrow> FilteredGrids \<Rightarrow> IonizedBox \<times> FilteredGrids \<times> RadiusSpec" where
  "calculate_fcoll_grid P U T c rspec previous_ionize_box box fg =
    (let n = HII_TOT_NUM_PIXELS (user_params P);
         s = fold (fcoll_cell P U T c rspec previous_ionize_box) [0 ..< n]
               (box, fg, f_coll_total0 U, f_coll_MINI_total0 U)
     in case s of (box', fg', f_coll_total, f_coll_MINI_total) \<Rightarrow>
          (box', fg',
           rspec\<lparr> f_coll_grid_mean := f_coll_total / real n,
                  f_coll_grid_mean_MINI := f_coll_MINI_total / real n \<rparr>))"


subsection \<open>Flagging ionised cells\<close>

text \<open>
  \<^verbatim>\<open>find_ionised_regions\<close>. The terms of the ionisation criterion for one cell, in
  the order the source computes them; \<open>ta\<close> and \<open>tm\<close> are \<^verbatim>\<open>mean_fix_term_acg\<close> and
  \<^verbatim>\<open>mean_fix_term_mcg\<close>.
\<close>

definition fcoll_index :: "Params \<Rightarrow> RadiusSpec \<Rightarrow> nat \<Rightarrow> nat" where
  "fcoll_index P rspec ct =
    (if USE_MINI_HALOS (flag_options P) then R_index rspec else 0)
      * HII_TOT_NUM_PIXELS (user_params P) + ct"

definition curr_dens_cell :: "Params \<Rightarrow> IonBoxConstants \<Rightarrow> FilteredGrids \<Rightarrow> grid \<Rightarrow> nat \<Rightarrow> real" where
  "curr_dens_cell P c fg density ct =
    (if CELL_RECOMB (flag_options P) then density ct * photoncons_adjustment_factor c
     else deltax_filtered fg ct)"

definition curr_fcoll_cell ::
  "Params \<Rightarrow> RadiusSpec \<Rightarrow> real \<Rightarrow> real \<Rightarrow> real \<Rightarrow> IonizedBox \<Rightarrow> nat \<Rightarrow> real" where
  "curr_fcoll_cell P rspec f_limit_acg ta curr_dens box ct =
    (let fo = flag_options P;
         f0 = ta * Fcoll box (fcoll_index P rspec ct);
         f1 = (if USE_HALO_FIELD fo
               then f0 * (1 / (RHOcrit (consts_h P) * OMb (cosmo_params P) * (1 + curr_dens)))
               else f0)
     in if USE_MASS_DEPENDENT_ZETA fo \<and> f1 < f_limit_acg then f_limit_acg else f1)"

definition curr_fcoll_mini_cell ::
  "Params \<Rightarrow> RadiusSpec \<Rightarrow> real \<Rightarrow> real \<Rightarrow> IonizedBox \<Rightarrow> nat \<Rightarrow> real" where
  "curr_fcoll_mini_cell P rspec f_limit_mcg tm box ct =
    (let fo = flag_options P;
         m0 = (if USE_MINI_HALOS fo \<and> \<not> USE_HALO_FIELD fo
               then tm * Fcoll_MINI box (fcoll_index P rspec ct) else 0)
     in if USE_MASS_DEPENDENT_ZETA fo \<and> USE_MINI_HALOS fo \<and> m0 < f_limit_mcg
        then f_limit_mcg else m0)"

definition rec_cell :: "Params \<Rightarrow> FilteredGrids \<Rightarrow> IonizedBox \<Rightarrow> real \<Rightarrow> nat \<Rightarrow> real" where
  "rec_cell P fg previous_ionize_box curr_dens ct =
    (let fo = flag_options P
     in if INHOMO_RECO fo
        then (if CELL_RECOMB fo then dNrec_box previous_ionize_box ct else N_rec_filtered fg ct)
               / (1 + curr_dens)
        else 0)"

definition xHII_from_xrays_cell :: "Params \<Rightarrow> FilteredGrids \<Rightarrow> nat \<Rightarrow> real" where
  "xHII_from_xrays_cell P fg ct = (if USE_TS_FLUCT (flag_options P) then xe_filtered fg ct else 0)"

definition barrier_crossed :: "IonBoxConstants \<Rightarrow> real \<Rightarrow> real \<Rightarrow> real \<Rightarrow> real \<Rightarrow> bool" where
  \<comment> \<open>the test marked \<^verbatim>\<open>//IONIZED!!\<close>\<close>
  "barrier_crossed c curr_fcoll curr_fcoll_mini xHII_from_xrays rec =
    (curr_fcoll * ion_eff_factor c + curr_fcoll_mini * ion_eff_factor_mini c
       > (1 - xHII_from_xrays) * (1 + rec))"

text \<open>
  Modelled from the spec: \<^verbatim>\<open>update_in_sphere\<close> is declared in a header only. The spec
  has it paint "all cells within the sphere of radius R around (x,y,z)"; which cells
  those are is the kernel \<^const>\<open>in_sphere\<close>, and a painted cell's neutral fraction
  becomes 0.
\<close>

definition update_in_sphere :: "Params \<Rightarrow> Kernels \<Rightarrow> real \<Rightarrow> nat \<Rightarrow> grid \<Rightarrow> grid" where
  "update_in_sphere P K r ct g =
    (\<lambda>j. if j < HII_TOT_NUM_PIXELS (user_params P) \<and> in_sphere K r ct j then 0 else g j)"

definition first_ionised_redshift :: "IonBoxConstants \<Rightarrow> IonizedBox \<Rightarrow> nat \<Rightarrow> real" where
  \<comment> \<open>"keep track of the first time this cell is ionized (earliest time)"\<close>
  "first_ionised_redshift c previous_ionize_box ct =
    (if z_re_box previous_ionize_box ct < 0 then redshift c
     else z_re_box previous_ionize_box ct)"

definition ionised_cell ::
  "Params \<Rightarrow> Kernels \<Rightarrow> IonBoxConstants \<Rightarrow> RadiusSpec \<Rightarrow> FilteredGrids \<Rightarrow> IonizedBox
     \<Rightarrow> real \<Rightarrow> real \<Rightarrow> real \<Rightarrow> IonizedBox \<Rightarrow> nat \<Rightarrow> IonizedBox" where
  "ionised_cell P K c rspec fg previous_ionize_box curr_dens curr_fcoll curr_fcoll_mini box ct =
    (let fo = flag_options P; alg = FIND_BUBBLE_ALGORITHM (global_params P);
         box1 = (if INHOMO_RECO fo \<and> xH_box box ct > FRACT_FLOAT_ERR (consts_h P)
                 then box\<lparr> Gamma12_box := (Gamma12_box box)
                             (ct := if USE_HALO_FIELD fo
                                    then R rspec * gamma_prefactor c / (1 + curr_dens)
                                           * sfr_filtered fg ct
                                    else R rspec * gamma_prefactor c * curr_fcoll
                                           + gamma_prefactor_mini c * curr_fcoll_mini),
                           MFP_box := (MFP_box box)(ct := R rspec) \<rparr>
                 else box);
         box2 = box1\<lparr> z_re_box := (z_re_box box1)
                        (ct := first_ionised_redshift c previous_ionize_box ct) \<rparr>;
         box3 = (if alg = 2 then box2\<lparr> xH_box := (xH_box box2)(ct := 0) \<rparr> else box2)
     in if alg = 1
        then box3\<lparr> xH_box := update_in_sphere P K (R rspec / BOX_LEN (user_params P)) ct
                                (xH_box box3) \<rparr>
        else box3)"

definition N_halos_in_cell :: "Params \<Rightarrow> nat \<Rightarrow> int" where
  \<comment> \<open>\<open>draw\<close> is what \<^verbatim>\<open>gsl_ran_poisson(rng, N_POISSON)\<close> returns for this cell\<close>
  "N_halos_in_cell P draw = (if NO_RNG (user_params P) then 1 else int draw)"

definition partial_fcolls ::
  "Params \<Rightarrow> IonBoxConstants \<Rightarrow> nat \<Rightarrow> real \<Rightarrow> real \<Rightarrow> real \<Rightarrow> real \<times> real" where
  \<comment> \<open>the block under \<^verbatim>\<open>if (!flag_options_global->USE_HALO_FIELD)\<close>\<close>
  "partial_fcolls P c draw curr_dens curr_fcoll curr_fcoll_mini =
    (let n_poisson = real_of_int (N_POISSON (global_params P));
         ave_M_coll_cell = (curr_fcoll + curr_fcoll_mini) * pixel_mass c * (1 + curr_dens);
         ave_N_min_cell = ave_M_coll_cell / M_min c;
         f1 = (if curr_fcoll > 1 then 1 else curr_fcoll);
         m1 = (if curr_fcoll_mini > 1 then 1 else curr_fcoll_mini);
         fm2 = (if ave_N_min_cell < n_poisson then
                  (let f = real_of_int (N_halos_in_cell P draw) * (ave_M_coll_cell / n_poisson)
                             / (pixel_mass c * (1 + curr_dens))
                   in if USE_MINI_HALOS (flag_options P) then
                        (let m = f * (m1 * ion_eff_factor c)
                                   / (f * ion_eff_factor c + m1 * ion_eff_factor_mini c)
                         in (f - m, m))
                      else (f, 0))
                else (f1, m1));
         fm3 = (if ave_M_coll_cell < M_min c / 5 then (0, 0) else fm2)
     in ((if fst fm3 > 1 then 1 else fst fm3), (if snd fm3 > 1 then 1 else snd fm3)))"

definition partial_cell ::
  "Params \<Rightarrow> Kernels \<Rightarrow> IonBoxConstants \<Rightarrow> grid \<Rightarrow> TsBox \<Rightarrow> nat
     \<Rightarrow> real \<Rightarrow> real \<Rightarrow> real \<Rightarrow> real \<Rightarrow> IonizedBox \<Rightarrow> nat \<Rightarrow> IonizedBox" where
  "partial_cell P K c density spin_temp draw curr_dens curr_fcoll curr_fcoll_mini
       xHII_from_xrays box ct =
    (let fo = flag_options P;
         fm = (if \<not> USE_HALO_FIELD fo
               then partial_fcolls P c draw curr_dens curr_fcoll curr_fcoll_mini
               else (curr_fcoll, curr_fcoll_mini));
         res_xH0 = 1 - fst fm * ion_eff_factor c - snd fm * ion_eff_factor_mini c;
         tk = (if USE_TS_FLUCT fo
               then ComputePartiallyIoinizedTemperature K (Tk_box spin_temp ct) res_xH0
               else ComputePartiallyIoinizedTemperature K
                      (TK_nofluct c * (1 + adia_TK_term c * density ct)) res_xH0);
         res_xH1 = res_xH0 - xHII_from_xrays;
         res_xH = (if res_xH1 < 0 then 0 else if res_xH1 > 1 then 1 else res_xH1)
     in box\<lparr> temp_kinetic_all_gas := (temp_kinetic_all_gas box)(ct := tk),
             xH_box := (xH_box box)(ct := res_xH) \<rparr>)"

definition cell_crosses ::
  "Params \<Rightarrow> IonBoxConstants \<Rightarrow> RadiusSpec \<Rightarrow> FilteredGrids \<Rightarrow> IonizedBox \<Rightarrow> grid
     \<Rightarrow> real \<Rightarrow> real \<Rightarrow> real \<Rightarrow> real \<Rightarrow> IonizedBox \<Rightarrow> nat \<Rightarrow> bool" where
  \<comment> \<open>the ionisation criterion of the cell, on the terms computed for it\<close>
  "cell_crosses P c rspec fg previous_ionize_box density f_limit_acg f_limit_mcg ta tm box ct =
    (let curr_dens = curr_dens_cell P c fg density ct
     in barrier_crossed c (curr_fcoll_cell P rspec f_limit_acg ta curr_dens box ct)
          (curr_fcoll_mini_cell P rspec f_limit_mcg tm box ct)
          (xHII_from_xrays_cell P fg ct)
          (rec_cell P fg previous_ionize_box curr_dens ct))"

definition find_ionised_cell ::
  "Params \<Rightarrow> Kernels \<Rightarrow> IonBoxConstants \<Rightarrow> RadiusSpec \<Rightarrow> FilteredGrids \<Rightarrow> IonizedBox
     \<Rightarrow> grid \<Rightarrow> TsBox \<Rightarrow> (nat \<Rightarrow> nat) \<Rightarrow> real \<Rightarrow> real \<Rightarrow> real \<Rightarrow> real
     \<Rightarrow> IonizedBox \<Rightarrow> nat \<Rightarrow> IonizedBox" where
  "find_ionised_cell P K c rspec fg previous_ionize_box density spin_temp draws
       f_limit_acg f_limit_mcg ta tm box ct =
    (let curr_dens = curr_dens_cell P c fg density ct;
         curr_fcoll = curr_fcoll_cell P rspec f_limit_acg ta curr_dens box ct;
         curr_fcoll_mini = curr_fcoll_mini_cell P rspec f_limit_mcg tm box ct
     in if cell_crosses P c rspec fg previous_ionize_box density f_limit_acg f_limit_mcg
             ta tm box ct
        then ionised_cell P K c rspec fg previous_ionize_box curr_dens curr_fcoll
               curr_fcoll_mini box ct
        else if R_index rspec = 0 \<and> xH_box box ct > TINY (consts_h P)
        then partial_cell P K c density spin_temp (draws ct) curr_dens curr_fcoll
               curr_fcoll_mini (xHII_from_xrays_cell P fg ct) box ct
        else box)"

definition mean_fix_term_acg :: "IonBoxConstants \<Rightarrow> RadiusSpec \<Rightarrow> IonizedBox \<Rightarrow> real" where
  "mean_fix_term_acg c rspec box =
    (if fix_mean c then mean_f_coll box / f_coll_grid_mean rspec else 1)"

definition mean_fix_term_mcg :: "IonBoxConstants \<Rightarrow> RadiusSpec \<Rightarrow> IonizedBox \<Rightarrow> real" where
  "mean_fix_term_mcg c rspec box =
    (if fix_mean c then mean_f_coll_MINI box / f_coll_grid_mean_MINI rspec else 1)"

definition find_ionised_regions ::
  "Params \<Rightarrow> Kernels \<Rightarrow> IonBoxConstants \<Rightarrow> RadiusSpec \<Rightarrow> FilteredGrids \<Rightarrow> IonizedBox
     \<Rightarrow> grid \<Rightarrow> TsBox \<Rightarrow> (nat \<Rightarrow> nat) \<Rightarrow> real \<Rightarrow> real \<Rightarrow> IonizedBox \<Rightarrow> IonizedBox" where
  "find_ionised_regions P K c rspec fg previous_ionize_box density spin_temp draws
       f_limit_acg f_limit_mcg box =
    (let ta = mean_fix_term_acg c rspec box;
         tm = mean_fix_term_mcg c rspec box;
         box0 = (if fix_mean c then box
                 else box\<lparr> mean_f_coll := f_coll_grid_mean rspec,
                           mean_f_coll_MINI := f_coll_grid_mean_MINI rspec \<rparr>)
     in fold (\<lambda>ct b. find_ionised_cell P K c rspec fg previous_ionize_box density spin_temp
                        draws f_limit_acg f_limit_mcg ta tm b ct)
          [0 ..< HII_TOT_NUM_PIXELS (user_params P)] box0)"


subsection \<open>The snapshot: \<^verbatim>\<open>ComputeIonizedBox\<close>\<close>

text \<open>
  What one call takes from its external collaborators: the radius schedule
  \<^verbatim>\<open>setup_radii\<close> returns (index 0 is the smallest radius), the filtered grids and
  the tables of each radius (by \<^verbatim>\<open>R_index\<close>), the Poisson draw of each cell, the
  Lyman-Werner threshold of each cell, the mass-function integrals
  \<^verbatim>\<open>set_mean_fcoll\<close> evaluates, and what \<^verbatim>\<open>adjust_redshifts_for_photoncons\<close>
  returns (\<open>photoncons_finite\<close>: both values it checks are finite).
\<close>

record Snapshot =
  radii_spec :: "RadiusSpec list"
  filtered :: "nat \<Rightarrow> FilteredGrids"
  tables :: "nat \<Rightarrow> Tables"
  draws :: "nat \<Rightarrow> nat"
  Mcrit_LW :: grid
  Nion_General_z :: real
  Nion_General_prev_z :: real
  Nion_General_zmax :: real
  Nion_General_MINI_z :: real
  Nion_General_MINI_prev_z :: real
  Nion_General_MINI_zmax :: real
  Fcoll_General_z :: real
  Fcoll_General_zmax :: real
  redshift_pc :: real
  stored_redshift_pc :: real
  photoncons_finite :: bool

definition setup_first_z_prevbox :: "Params \<Rightarrow> IonizedBox \<Rightarrow> IonizedBox" where
  \<comment> \<open>the dummy previous box of the first snapshot (its effect on the ionised box)\<close>
  "setup_first_z_prevbox P previous_ionize_box =
    (let fo = flag_options P;
         b1 = previous_ionize_box\<lparr> z_re_box := (\<lambda>ct. - 1) \<rparr>;
         b2 = (if INHOMO_RECO fo then b1\<lparr> dNrec_box := (\<lambda>ct. 0) \<rparr> else b1)
     in if USE_MINI_HALOS fo
        then b2\<lparr> Gamma12_box := (\<lambda>ct. 0), Fcoll := (\<lambda>i. 0), Fcoll_MINI := (\<lambda>i. 0),
                 mean_f_coll := 0, mean_f_coll_MINI := 0 \<rparr>
        else b2)"

definition set_mean_fcoll ::
  "Params \<Rightarrow> Snapshot \<Rightarrow> IonBoxConstants \<Rightarrow> IonizedBox \<Rightarrow> IonizedBox
     \<Rightarrow> IonizedBox \<times> real \<times> real" where
  \<comment> \<open>the box with its means set, \<^verbatim>\<open>f_limit_acg\<close> and \<^verbatim>\<open>f_limit_mcg\<close> (0 where the
      source leaves it unassigned and never reads it)\<close>
  "set_mean_fcoll P X c prev_box curr_box =
    (let fo = flag_options P
     in if USE_MASS_DEPENDENT_ZETA fo then
          (if USE_MINI_HALOS fo then
             (let m = (if mean_f_coll prev_box * ion_eff_factor_gl c < 1 / 10 ^ 4
                       then Nion_General_z X
                       else mean_f_coll prev_box + Nion_General_z X - Nion_General_prev_z X);
                  mm = (if mean_f_coll_MINI prev_box * ion_eff_factor_gl c < 1 / 10 ^ 4
                        then Nion_General_MINI_z X
                        else mean_f_coll_MINI prev_box + Nion_General_MINI_z X
                               - Nion_General_MINI_prev_z X)
              in (curr_box\<lparr> mean_f_coll := m, mean_f_coll_MINI := mm \<rparr>,
                  Nion_General_zmax X, Nion_General_MINI_zmax X))
           else (curr_box\<lparr> mean_f_coll := Nion_General_z X, mean_f_coll_MINI := 0 \<rparr>,
                 Nion_General_zmax X, 0))
        else (curr_box\<lparr> mean_f_coll := Fcoll_General_z X \<rparr>, Fcoll_General_zmax X, 0))"

definition set_fully_neutral_box ::
  "Params \<Rightarrow> Kernels \<Rightarrow> IonBoxConstants \<Rightarrow> TsBox \<Rightarrow> grid \<Rightarrow> IonizedBox \<Rightarrow> IonizedBox" where
  "set_fully_neutral_box P K c spin_temp density box =
    (if USE_TS_FLUCT (flag_options P) then
       fold (\<lambda>ct b. b\<lparr> xH_box := (xH_box b)(ct := 1 - x_e_box spin_temp ct),
                       temp_kinetic_all_gas := (temp_kinetic_all_gas b)(ct := Tk_box spin_temp ct) \<rparr>)
         [0 ..< HII_TOT_NUM_PIXELS (user_params P)] box
     else
       (let global_xH = 1 - xion_RECFAST K (redshift c)
        in fold (\<lambda>ct b. b\<lparr> xH_box := (xH_box b)(ct := global_xH),
                           temp_kinetic_all_gas := (temp_kinetic_all_gas b)
                             (ct := TK_nofluct c * (1 + adia_TK_term c * density ct)) \<rparr>)
             [0 ..< HII_TOT_NUM_PIXELS (user_params P)] box))"

definition ionized_temperature_cell ::
  "Params \<Rightarrow> Kernels \<Rightarrow> IonBoxConstants \<Rightarrow> TsBox \<Rightarrow> grid \<Rightarrow> IonizedBox \<Rightarrow> nat \<Rightarrow> IonizedBox" where
  "ionized_temperature_cell P K c spin_temp density box ct =
    (if z_re_box box ct > 0 \<and> xH_box box ct < TINY (consts_h P) then
       (let t = ComputeFullyIoinizedTemperature K (z_re_box box ct) (stored_redshift c)
                  (density ct);
            floor_tk = (if USE_TS_FLUCT (flag_options P) then Tk_box spin_temp ct
                        else TK_nofluct c * (1 + adia_TK_term c * density ct))
        in box\<lparr> temp_kinetic_all_gas := (temp_kinetic_all_gas box)
                  (ct := if t < floor_tk then floor_tk else t) \<rparr>)
     else box)"

definition set_ionized_temperatures ::
  "Params \<Rightarrow> Kernels \<Rightarrow> IonBoxConstants \<Rightarrow> TsBox \<Rightarrow> grid \<Rightarrow> IonizedBox \<Rightarrow> IonizedBox" where
  "set_ionized_temperatures P K c spin_temp density box =
    fold (\<lambda>ct b. ionized_temperature_cell P K c spin_temp density b ct)
      [0 ..< HII_TOT_NUM_PIXELS (user_params P)] box"

definition floor_grid_means :: "Params \<Rightarrow> real \<Rightarrow> real \<Rightarrow> RadiusSpec \<Rightarrow> RadiusSpec" where
  \<comment> \<open>the floors \<^verbatim>\<open>ComputeIonizedBox\<close> puts on the grid means before flagging\<close>
  "floor_grid_means P f_limit_acg f_limit_mcg rspec =
    (let fo = flag_options P
     in if USE_MASS_DEPENDENT_ZETA fo then
          (let r1 = (if f_coll_grid_mean rspec \<le> f_limit_acg
                     then rspec\<lparr> f_coll_grid_mean := f_limit_acg \<rparr> else rspec)
           in if USE_MINI_HALOS fo \<and> f_coll_grid_mean_MINI r1 \<le> f_limit_mcg
              then r1\<lparr> f_coll_grid_mean_MINI := f_limit_mcg \<rparr> else r1)
        else if f_coll_grid_mean rspec \<le> FRACT_FLOAT_ERR (consts_h P)
             then rspec\<lparr> f_coll_grid_mean := FRACT_FLOAT_ERR (consts_h P) \<rparr>
             else rspec)"

definition radius_fcoll ::
  "Params \<Rightarrow> Uninit \<Rightarrow> Snapshot \<Rightarrow> IonBoxConstants \<Rightarrow> IonizedBox \<Rightarrow> real \<Rightarrow> real
     \<Rightarrow> RadiusSpec \<Rightarrow> IonizedBox \<Rightarrow> IonizedBox \<times> FilteredGrids \<times> RadiusSpec" where
  \<comment> \<open>the body of the loop over the filter radii up to the call of
      \<^verbatim>\<open>find_ionised_regions\<close>: the box, the grids and \<^verbatim>\<open>curr_radius\<close> it is called on\<close>
  "radius_fcoll P U X c previous_ionize_box f_limit_acg f_limit_mcg curr_radius box =
    (let fg0 = filtered X (R_index curr_radius);
         fg1 = (if \<not> USE_HALO_FIELD (flag_options P) then setup_integration_tables P fg0
                else fg0)
     in case calculate_fcoll_grid P U (tables X (R_index curr_radius)) c curr_radius
               previous_ionize_box box fg1 of
          (box1, fg2, r1) \<Rightarrow> (box1, fg2, floor_grid_means P f_limit_acg f_limit_mcg r1))"

definition radius_step ::
  "Params \<Rightarrow> Kernels \<Rightarrow> Uninit \<Rightarrow> Snapshot \<Rightarrow> IonBoxConstants \<Rightarrow> IonizedBox \<Rightarrow> grid \<Rightarrow> TsBox
     \<Rightarrow> real \<Rightarrow> real \<Rightarrow> RadiusSpec \<Rightarrow> IonizedBox \<Rightarrow> IonizedBox" where
  \<comment> \<open>the whole body of the loop, for \<^verbatim>\<open>curr_radius\<close>\<close>
  "radius_step P K U X c previous_ionize_box density spin_temp f_limit_acg f_limit_mcg
       curr_radius box =
    (case radius_fcoll P U X c previous_ionize_box f_limit_acg f_limit_mcg curr_radius box of
       (box1, fg2, r2) \<Rightarrow>
         find_ionised_regions P K c r2 fg2 previous_ionize_box density spin_temp (draws X)
           f_limit_acg f_limit_mcg box1)"

fun R_loop ::
  "Params \<Rightarrow> Kernels \<Rightarrow> Uninit \<Rightarrow> Snapshot \<Rightarrow> IonBoxConstants \<Rightarrow> IonizedBox \<Rightarrow> grid \<Rightarrow> TsBox
     \<Rightarrow> real \<Rightarrow> real \<Rightarrow> RadiusSpec list \<Rightarrow> IonizedBox \<Rightarrow> IonizedBox" where
  \<comment> \<open>\<^verbatim>\<open>for(R_ct=n_radii;R_ct--;)\<close> on the radii still to come, largest first, with
      its \<^verbatim>\<open>break\<close>\<close>
  "R_loop P K U X c prev density spin_temp fa fm [] box = box"
| "R_loop P K U X c prev density spin_temp fa fm (curr_radius # rest) box =
    (if M_min c > RtoM K (R curr_radius) then box
     else R_loop P K U X c prev density spin_temp fa fm rest
            (radius_step P K U X c prev density spin_temp fa fm curr_radius box))"

definition init_box :: "Params \<Rightarrow> IonizedBox \<Rightarrow> IonizedBox" where
  \<comment> \<open>"boxes which aren't guaranteed to have every element assigned to need to be
      initialised", and \<^verbatim>\<open>z_re_box\<close>\<close>
  "init_box P box =
    (let n = HII_TOT_NUM_PIXELS (user_params P);
         b1 = (if INHOMO_RECO (flag_options P)
               then box\<lparr> Gamma12_box := (\<lambda>ct. if ct < n then 0 else Gamma12_box box ct),
                         MFP_box := (\<lambda>ct. if ct < n then 0 else MFP_box box ct) \<rparr>
               else box)
     in b1\<lparr> z_re_box := (\<lambda>ct. if ct < n then - 1 else z_re_box b1 ct) \<rparr>)"

definition photoncons_constants :: "Params \<Rightarrow> Kernels \<Rightarrow> Snapshot \<Rightarrow> IonBoxConstants \<Rightarrow> IonBoxConstants" where
  "photoncons_constants P K X c =
    (if PHOTON_CONS_TYPE (flag_options P) = 1
     then c\<lparr> redshift := redshift_pc X, stored_redshift := stored_redshift_pc X,
             photoncons_adjustment_factor :=
               dicke K (redshift_pc X) / dicke K (stored_redshift_pc X) \<rparr>
     else c)"

definition snapshot_constants :: "Params \<Rightarrow> Kernels \<Rightarrow> Snapshot \<Rightarrow> real \<Rightarrow> real \<Rightarrow> IonBoxConstants" where
  \<comment> \<open>\<^verbatim>\<open>ionbox_constants\<close> as the loop sees it\<close>
  "snapshot_constants P K X z prev_z =
     photoncons_constants P K X (set_ionbox_constants P K z prev_z)"

definition snapshot_prev :: "Params \<Rightarrow> real \<Rightarrow> IonizedBox \<Rightarrow> IonizedBox" where
  \<comment> \<open>"if we don't have a previous ionised box, make a fake one here"\<close>
  "snapshot_prev P prev_z previous_ionize_box =
    (if prev_z < 1 then setup_first_z_prevbox P previous_ionize_box else previous_ionize_box)"

definition exp_global_hii :: "IonBoxConstants \<Rightarrow> IonizedBox \<Rightarrow> real" where
  "exp_global_hii c box =
     mean_f_coll box * ion_eff_factor_gl c + mean_f_coll_MINI box * ion_eff_factor_mini_gl c"

definition entry_error :: "Params \<Rightarrow> Snapshot \<Rightarrow> error option" where
  \<comment> \<open>the errors thrown before the mean collapse fraction is computed, first one first\<close>
  "entry_error P X =
    (let fo = flag_options P; gp = global_params P
     in if FIND_BUBBLE_ALGORITHM gp \<noteq> 2 \<and> FIND_BUBBLE_ALGORITHM gp \<noteq> 1 then Some ValueError
        else if PHOTON_CONS_TYPE fo = 1 \<and> \<not> photoncons_finite X then Some PhotonConsError
        else if USE_MASS_DEPENDENT_ZETA fo \<and> USE_MINI_HALOS fo
                \<and> list_ex (\<lambda>ct. Mcrit_LW X ct = 0) [0 ..< HII_TOT_NUM_PIXELS (user_params P)]
        then Some ValueError
        else None)"

definition mean_box ::
  "Params \<Rightarrow> Kernels \<Rightarrow> Snapshot \<Rightarrow> real \<Rightarrow> real \<Rightarrow> IonizedBox \<Rightarrow> IonizedBox
     \<Rightarrow> IonizedBox \<times> real \<times> real" where
  \<comment> \<open>the initialised box with its means set, and the two limits\<close>
  "mean_box P K X z prev_z previous_ionize_box box =
     set_mean_fcoll P X (snapshot_constants P K X z prev_z)
       (snapshot_prev P prev_z previous_ionize_box) (init_box P box)"

definition ComputeIonizedBox ::
  "Params \<Rightarrow> Kernels \<Rightarrow> Uninit \<Rightarrow> Snapshot \<Rightarrow> real \<Rightarrow> real \<Rightarrow> grid \<Rightarrow> IonizedBox \<Rightarrow> TsBox
     \<Rightarrow> IonizedBox \<Rightarrow> error + IonizedBox" where
  "ComputeIonizedBox P K U X z prev_z density previous_ionize_box spin_temp box =
    (case entry_error P X of
       Some e \<Rightarrow> Inl e
     | None \<Rightarrow>
        (let c = snapshot_constants P K X z prev_z;
             prev = snapshot_prev P prev_z previous_ionize_box
         in case mean_box P K X z prev_z previous_ionize_box box of
              (box2, f_limit_acg, f_limit_mcg) \<Rightarrow>
                if exp_global_hii c box2 < HII_ROUND_ERR (global_params P)
                then Inr (set_fully_neutral_box P K c spin_temp density box2)
                else
                  (let box3 = R_loop P K U X c prev density spin_temp
                                f_limit_acg f_limit_mcg (rev (radii_spec X)) box2;
                       box4 = set_ionized_temperatures P K c spin_temp density box3
                   in if INHOMO_RECO (flag_options P)
                      then set_recombination_rates P K U c density prev box4
                      else Inr box4)))"

subsection \<open>Which cells cross the barrier\<close>

text \<open>
  The criterion does not read what the flagging writes, so whether a cell crosses at
  a radius is fixed when the loop body is entered: \<open>crosses_at_radius\<close>. A cell has
  crossed in the loop when it crosses at one of the radii the loop processes, and in
  the snapshot when the loop runs and the cell crosses in it.
\<close>

definition crosses_at_radius ::
  "Params \<Rightarrow> Uninit \<Rightarrow> Snapshot \<Rightarrow> IonBoxConstants \<Rightarrow> IonizedBox \<Rightarrow> grid \<Rightarrow> real \<Rightarrow> real
     \<Rightarrow> RadiusSpec \<Rightarrow> IonizedBox \<Rightarrow> nat \<Rightarrow> bool" where
  "crosses_at_radius P U X c previous_ionize_box density f_limit_acg f_limit_mcg
       curr_radius box ct =
    (case radius_fcoll P U X c previous_ionize_box f_limit_acg f_limit_mcg curr_radius box of
       (box1, fg2, r2) \<Rightarrow>
         ct < HII_TOT_NUM_PIXELS (user_params P)
         \<and> cell_crosses P c r2 fg2 previous_ionize_box density f_limit_acg f_limit_mcg
             (mean_fix_term_acg c r2 box1) (mean_fix_term_mcg c r2 box1) box1 ct)"

fun crossed_in_loop ::
  "Params \<Rightarrow> Kernels \<Rightarrow> Uninit \<Rightarrow> Snapshot \<Rightarrow> IonBoxConstants \<Rightarrow> IonizedBox \<Rightarrow> grid \<Rightarrow> TsBox
     \<Rightarrow> real \<Rightarrow> real \<Rightarrow> RadiusSpec list \<Rightarrow> IonizedBox \<Rightarrow> nat \<Rightarrow> bool" where
  "crossed_in_loop P K U X c prev density spin_temp fa fm [] box ct = False"
| "crossed_in_loop P K U X c prev density spin_temp fa fm (curr_radius # rest) box ct =
    (if M_min c > RtoM K (R curr_radius) then False
     else (crosses_at_radius P U X c prev density fa fm curr_radius box ct
           \<or> crossed_in_loop P K U X c prev density spin_temp fa fm rest
                (radius_step P K U X c prev density spin_temp fa fm curr_radius box) ct))"

definition crossed_in_snapshot ::
  "Params \<Rightarrow> Kernels \<Rightarrow> Uninit \<Rightarrow> Snapshot \<Rightarrow> real \<Rightarrow> real \<Rightarrow> grid \<Rightarrow> IonizedBox \<Rightarrow> TsBox
     \<Rightarrow> IonizedBox \<Rightarrow> nat \<Rightarrow> bool" where
  "crossed_in_snapshot P K U X z prev_z density previous_ionize_box spin_temp box ct =
    (let c = snapshot_constants P K X z prev_z;
         prev = snapshot_prev P prev_z previous_ionize_box
     in case mean_box P K X z prev_z previous_ionize_box box of
          (box2, f_limit_acg, f_limit_mcg) \<Rightarrow>
            \<not> exp_global_hii c box2 < HII_ROUND_ERR (global_params P)
            \<and> crossed_in_loop P K U X c prev density spin_temp f_limit_acg f_limit_mcg
                (rev (radii_spec X)) box2 ct)"

section \<open>The shell schedule of the spin-temperature engine\<close>

text \<open>
  \<^verbatim>\<open>setup_z_edges\<close> fills ten global arrays, one entry for each of the
  \<^verbatim>\<open>NUM_FILTER_STEPS_FOR_Ts\<close> shells, in increasing shell index. An array is the
  list of the entries written so far; \<open>R_ct\<close> is its length.
\<close>

record ShellSchedule =
  R_values :: "real list"
  zpp_edge :: "real list"
  zpp_for_evolve_list :: "real list"
  zpp_growth :: "real list"
  dzpp_list :: "real list"
  dtdz_list :: "real list"
  M_min_R :: "real list"
  M_max_R :: "real list"
  sigma_min :: "real list"
  sigma_max :: "real list"

definition z_edges_step :: "Params \<Rightarrow> Kernels \<Rightarrow> real \<Rightarrow> real \<Rightarrow> ShellSchedule \<Rightarrow> ShellSchedule" where
  \<comment> \<open>one pass of the loop body, for the radius \<open>r\<close> of shell \<open>R_ct\<close>\<close>
  "z_edges_step P K zp r S =
    (let R_ct = length (R_values S);
         prev_zpp = (if R_ct = 0 then zp else zpp_edge S ! (R_ct - 1));
         prev_R = (if R_ct = 0 then 0 else R_values S ! (R_ct - 1));
         edge = prev_zpp - (r - prev_R) * CMperMPC (consts_h P) / drdz K prev_zpp;
         zpp = (edge + prev_zpp) * (1 / 2);
         dzpp_for_evolve = (if R_ct = 0 then zp - edge else zpp_edge S ! (R_ct - 1) - edge);
         mmin = minimum_source_mass K zpp;
         mmax = RtoM K r
     in \<lparr> R_values = R_values S @ [r],
          zpp_edge = zpp_edge S @ [edge],
          zpp_for_evolve_list = zpp_for_evolve_list S @ [zpp],
          zpp_growth = zpp_growth S @ [dicke K zpp],
          dzpp_list = dzpp_list S @ [dzpp_for_evolve],
          dtdz_list = dtdz_list S @ [dtdz K zpp],
          M_min_R = M_min_R S @ [mmin],
          M_max_R = M_max_R S @ [mmax],
          sigma_min = sigma_min S @ [EvaluateSigma K (ln mmin)],
          sigma_max = sigma_max S @ [EvaluateSigma K (ln mmax)] \<rparr>)"

fun z_edges_loop ::
  "Params \<Rightarrow> Kernels \<Rightarrow> real \<Rightarrow> real \<Rightarrow> nat \<Rightarrow> real \<Rightarrow> ShellSchedule \<Rightarrow> ShellSchedule" where
  \<comment> \<open>the passes still to run, \<open>r\<close> the current value of the local \<^verbatim>\<open>R\<close>\<close>
  "z_edges_loop P K zp R_factor 0 r S = S"
| "z_edges_loop P K zp R_factor (Suc n) r S =
     z_edges_loop P K zp R_factor n (r * R_factor) (z_edges_step P K zp r S)"

definition R_cell :: "Params \<Rightarrow> real" where
  \<comment> \<open>\<^verbatim>\<open>L_FACTOR*BOX_LEN/(float)HII_DIM\<close>\<close>
  "R_cell P = L_FACTOR (consts_h P) * BOX_LEN (user_params P) / real (HII_DIM (user_params P))"

definition R_factor_of :: "Params \<Rightarrow> real" where
  \<comment> \<open>\<^verbatim>\<open>pow(R_XLy_MAX/R, 1/((float)NUM_FILTER_STEPS_FOR_Ts))\<close>\<close>
  "R_factor_of P =
    (R_XLy_MAX (global_params P) / R_cell P)
       powr (1 / real (NUM_FILTER_STEPS_FOR_Ts (global_params P)))"

definition setup_z_edges :: "Params \<Rightarrow> Kernels \<Rightarrow> real \<Rightarrow> ShellSchedule" where
  "setup_z_edges P K zp =
    z_edges_loop P K zp (R_factor_of P) (NUM_FILTER_STEPS_FOR_Ts (global_params P)) (R_cell P)
      \<lparr> R_values = [], zpp_edge = [], zpp_for_evolve_list = [], zpp_growth = [],
        dzpp_list = [], dtdz_list = [], M_min_R = [], M_max_R = [], sigma_min = [],
        sigma_max = [] \<rparr>"


section \<open>The halo-box gridder (HaloBox.c)\<close>

record HaloProperties =
  halo_mass :: real
  stellar_mass :: real
  halo_sfr :: real
  stellar_mass_mini :: real
  sfr_mini :: real
  fescweighted_sfr :: real
  n_ion :: real
  halo_xray :: real
  metallicity :: real
  m_turn_acg :: real
  m_turn_mcg :: real
  m_turn_reion :: real

text \<open>
  The output grids of \<^verbatim>\<open>HaloBox\<close>. Four of them carry the name of a field of
  \<^verbatim>\<open>struct HaloProperties\<close>; those have the suffix \<open>_grid\<close> here.
\<close>

record HaloBox =
  halo_mass_grid :: grid
  halo_stars :: grid
  halo_stars_mini :: grid
  n_ion_grid :: grid
  halo_sfr_grid :: grid
  halo_sfr_mini :: grid
  whalo_sfr :: grid
  halo_xray_grid :: grid
  count :: "nat \<Rightarrow> int"
  log10_Mcrit_ACG_ave :: real
  log10_Mcrit_MCG_ave :: real

record PerturbHaloField =
  n_halos :: nat
  halo_masses :: "nat \<Rightarrow> real"
  halo_coords :: "nat \<Rightarrow> int"
  star_rng :: "nat \<Rightarrow> real"
  sfr_rng :: "nat \<Rightarrow> real"
  xray_rng :: "nat \<Rightarrow> real"

text \<open>
  The fields of \<^verbatim>\<open>struct HaloBoxConstants\<close> that the gridding reads; two carry the
  name of a field of \<^verbatim>\<open>struct IonBoxConstants\<close> and have the suffix \<open>_hb\<close>.
\<close>

record HaloBoxConstants =
  redshift_hb :: real
  vcb_norel :: real
  mturn_a_nofb_hb :: real
  mturn_m_nofb :: real

text \<open>
  What the gridder calls and this development does not unfold: the thresholds of
  \<^verbatim>\<open>thermochem.h\<close>, the index macro of \<^verbatim>\<open>indexing.h\<close>, the per-halo property
  model \<^verbatim>\<open>set_halo_properties\<close> (halo mass, the two turnovers, the three random
  numbers) and the mass-function gridding \<^verbatim>\<open>set_fixed_grids\<close> (minimum and maximum
  mass, the grids). Both are functions of the sources built on \<^verbatim>\<open>pow\<close>, \<^verbatim>\<open>exp\<close>
  and tabulated integrals; the theorems below hold whatever they return.
\<close>

record HaloKernels =
  lyman_werner_threshold :: "real \<Rightarrow> real \<Rightarrow> real \<Rightarrow> real"
  reionization_feedback :: "real \<Rightarrow> real \<Rightarrow> real \<Rightarrow> real"
  HII_R_INDEX :: "int \<Rightarrow> int \<Rightarrow> int \<Rightarrow> nat"
  set_halo_properties :: "real \<Rightarrow> real \<Rightarrow> real \<Rightarrow> real \<times> real \<times> real \<Rightarrow> HaloProperties"
  set_fixed_grids :: "real \<Rightarrow> real \<Rightarrow> HaloBox \<Rightarrow> HaloBox \<times> HaloProperties"

definition set_hbox_constants ::
  "Params \<Rightarrow> Kernels \<Rightarrow> HaloKernels \<Rightarrow> real \<Rightarrow> real \<Rightarrow> HaloBoxConstants" where
  \<comment> \<open>\<open>vcb0\<close>: what \<^verbatim>\<open>consts->vcb_norel\<close> holds at entry; the source reads it for the
      Lyman-Werner threshold one line before assigning it\<close>
  "set_hbox_constants P K HK vcb0 z =
    (let fo = flag_options P
     in \<lparr> redshift_hb = z,
          vcb_norel = (if USE_MINI_HALOS fo
                       then (if FIX_VCB_AVG fo then VAVG (global_params P) else 0)
                       else vcb0),
          mturn_a_nofb_hb = (if USE_MINI_HALOS fo then atomic_cooling_threshold K z
                             else M_TURN (astro_params P)),
          mturn_m_nofb = (if USE_MINI_HALOS fo then lyman_werner_threshold HK z 0 vcb0
                          else 0) \<rparr>)"

definition cell_turnovers ::
  "Params \<Rightarrow> HaloKernels \<Rightarrow> HaloBoxConstants \<Rightarrow> grid \<Rightarrow> TsBox \<Rightarrow> IonizedBox \<Rightarrow> nat
     \<Rightarrow> real \<times> real \<times> real" where
  \<comment> \<open>\<^verbatim>\<open>(M_turn_a, M_turn_m, M_turn_r)\<close> with minihalos, for the cell \<open>i\<close>\<close>
  "cell_turnovers P HK c lowres_vcb previous_spin_temp previous_ionize_box i =
    (let fo = flag_options P; z = redshift_hb c;
         curr_vcb = (if \<not> FIX_VCB_AVG fo \<and> USE_RELATIVE_VELOCITIES (user_params P)
                     then lowres_vcb i else vcb_norel c);
         early = (z < Z_HEAT_MAX (global_params P));
         J21_val = (if early then J_21_LW_box previous_spin_temp i else 0);
         Gamma12_val = (if early then Gamma12_box previous_ionize_box i else 0);
         zre_val = (if early then z_re_box previous_ionize_box i else 0);
         M_turn_r = reionization_feedback HK z Gamma12_val zre_val
     in (max (mturn_a_nofb_hb c) (max M_turn_r (M_TURN (astro_params P))),
         max (lyman_werner_threshold HK z J21_val curr_vcb)
             (max M_turn_r (M_TURN (astro_params P))),
         M_turn_r))"

definition get_mean_log10_turnovers ::
  "Params \<Rightarrow> HaloKernels \<Rightarrow> HaloBoxConstants \<Rightarrow> grid \<Rightarrow> TsBox \<Rightarrow> IonizedBox
     \<Rightarrow> real \<times> real \<times> real" where
  "get_mean_log10_turnovers P HK c lowres_vcb previous_spin_temp previous_ionize_box =
    (if \<not> USE_MINI_HALOS (flag_options P)
     then (log 10 (mturn_a_nofb_hb c), log 10 (mturn_m_nofb c), 0)
     else
       (let n = HII_TOT_NUM_PIXELS (user_params P);
            ts = map (cell_turnovers P HK c lowres_vcb previous_spin_temp previous_ionize_box)
                   [0 ..< n]
        in (sum_list (map (\<lambda>t. log 10 (fst t)) ts) / real n,
            sum_list (map (\<lambda>t. log 10 (fst (snd t))) ts) / real n,
            sum_list (map (\<lambda>t. log 10 (snd (snd t))) ts) / real n)))"

text \<open>
  \<^verbatim>\<open>sum_halos_onto_grid\<close>. The state of the loop over the halos: the grids, the
  running sums (kept in a \<^typ>\<open>HaloProperties\<close>) and \<^verbatim>\<open>n_halos_cut\<close>.
\<close>

definition sum_halo ::
  "Params \<Rightarrow> HaloKernels \<Rightarrow> HaloBoxConstants \<Rightarrow> grid \<Rightarrow> TsBox \<Rightarrow> IonizedBox
     \<Rightarrow> PerturbHaloField \<Rightarrow> nat \<Rightarrow> HaloBox \<times> HaloProperties \<times> nat
     \<Rightarrow> HaloBox \<times> HaloProperties \<times> nat" where
  "sum_halo P HK c lowres_vcb previous_spin_temp previous_ionize_box halos i_halo s =
    (case s of (grids, acc, n_halos_cut) \<Rightarrow>
      (let hmass = halo_masses halos i_halo
       in if hmass = 0 then (grids, acc, n_halos_cut + 1)
          else
            (let i_cell = HII_R_INDEX HK (halo_coords halos (0 + 3 * i_halo))
                            (halo_coords halos (1 + 3 * i_halo))
                            (halo_coords halos (2 + 3 * i_halo));
                 tn = (if USE_MINI_HALOS (flag_options P)
                       then cell_turnovers P HK c lowres_vcb previous_spin_temp
                              previous_ionize_box i_cell
                       else (mturn_a_nofb_hb c, mturn_m_nofb c, 0));
                 M_turn_a = fst tn; M_turn_m = fst (snd tn); M_turn_r = snd (snd tn);
                 out_props = set_halo_properties HK hmass M_turn_a M_turn_m
                               (star_rng halos i_halo, sfr_rng halos i_halo,
                                xray_rng halos i_halo);
                 grids' = grids
                   \<lparr> halo_mass_grid := (halo_mass_grid grids)
                        (i_cell := halo_mass_grid grids i_cell + hmass),
                     halo_stars := (halo_stars grids)
                        (i_cell := halo_stars grids i_cell + stellar_mass out_props),
                     halo_stars_mini := (halo_stars_mini grids)
                        (i_cell := halo_stars_mini grids i_cell + stellar_mass_mini out_props),
                     n_ion_grid := (n_ion_grid grids)
                        (i_cell := n_ion_grid grids i_cell + n_ion out_props),
                     halo_sfr_grid := (halo_sfr_grid grids)
                        (i_cell := halo_sfr_grid grids i_cell + halo_sfr out_props),
                     halo_sfr_mini := (halo_sfr_mini grids)
                        (i_cell := halo_sfr_mini grids i_cell + sfr_mini out_props),
                     whalo_sfr := (whalo_sfr grids)
                        (i_cell := whalo_sfr grids i_cell + fescweighted_sfr out_props),
                     halo_xray_grid := (halo_xray_grid grids)
                        (i_cell := halo_xray_grid grids i_cell + halo_xray out_props),
                     count := (count grids)(i_cell := count grids i_cell + 1) \<rparr>;
                 acc' = acc
                   \<lparr> halo_mass := halo_mass acc + hmass,
                     halo_sfr := halo_sfr acc + halo_sfr out_props,
                     sfr_mini := sfr_mini acc + sfr_mini out_props,
                     stellar_mass := stellar_mass acc + stellar_mass out_props,
                     stellar_mass_mini := stellar_mass_mini acc + stellar_mass_mini out_props,
                     halo_xray := halo_xray acc + halo_xray out_props,
                     n_ion := n_ion acc + n_ion out_props,
                     fescweighted_sfr := fescweighted_sfr acc + fescweighted_sfr out_props,
                     m_turn_acg := m_turn_acg acc + M_turn_a,
                     m_turn_reion := m_turn_reion acc + M_turn_r,
                     m_turn_mcg := m_turn_mcg acc + M_turn_m \<rparr>
             in (grids', acc', n_halos_cut))))"

definition to_density :: "Params \<Rightarrow> HaloBox \<Rightarrow> HaloBox" where
  \<comment> \<open>the second loop: eight grids are divided by \<^verbatim>\<open>cell_volume\<close>, the count is not\<close>
  "to_density P grids =
    (let n = HII_TOT_NUM_PIXELS (user_params P);
         cell_volume = VOLUME (user_params P) / real n;
         d = (\<lambda>g i. if i < n then g i / cell_volume else g i)
     in grids\<lparr> halo_mass_grid := d (halo_mass_grid grids),
               halo_sfr_grid := d (halo_sfr_grid grids),
               halo_sfr_mini := d (halo_sfr_mini grids),
               halo_stars := d (halo_stars grids),
               halo_stars_mini := d (halo_stars_mini grids),
               halo_xray_grid := d (halo_xray_grid grids),
               n_ion_grid := d (n_ion_grid grids),
               whalo_sfr := d (whalo_sfr grids) \<rparr>)"

definition zero_props :: HaloProperties where
  "zero_props = \<lparr> halo_mass = 0, stellar_mass = 0, halo_sfr = 0, stellar_mass_mini = 0,
      sfr_mini = 0, fescweighted_sfr = 0, n_ion = 0, halo_xray = 0, metallicity = 0,
      m_turn_acg = 0, m_turn_mcg = 0, m_turn_reion = 0 \<rparr>"

definition sum_halos_onto_grid ::
  "Params \<Rightarrow> HaloKernels \<Rightarrow> HaloBoxConstants \<Rightarrow> grid \<Rightarrow> TsBox \<Rightarrow> IonizedBox
     \<Rightarrow> PerturbHaloField \<Rightarrow> HaloBox \<Rightarrow> HaloBox \<times> HaloProperties" where
  \<comment> \<open>the grids and \<^verbatim>\<open>*averages\<close>; the two fields of the averages that the source
      does not assign (\<^verbatim>\<open>fescweighted_sfr\<close>, \<^verbatim>\<open>metallicity\<close>) are 0\<close>
  "sum_halos_onto_grid P HK c lowres_vcb previous_spin_temp previous_ionize_box halos grids =
    (case fold (sum_halo P HK c lowres_vcb previous_spin_temp previous_ionize_box halos)
            [0 ..< n_halos halos] (grids, zero_props, 0) of
       (grids1, acc, n_halos_cut) \<Rightarrow>
         (let total_n_halos = n_halos halos - n_halos_cut;
              vol = VOLUME (user_params P)
          in (to_density P grids1,
              \<lparr> halo_mass = halo_mass acc / vol,
                stellar_mass = stellar_mass acc / vol,
                halo_sfr = halo_sfr acc / vol,
                stellar_mass_mini = stellar_mass_mini acc / vol,
                sfr_mini = sfr_mini acc / vol,
                fescweighted_sfr = 0,
                n_ion = n_ion acc / vol,
                halo_xray = halo_xray acc / vol,
                metallicity = 0,
                m_turn_acg = (if total_n_halos > 0 then m_turn_acg acc / real total_n_halos
                              else mturn_a_nofb_hb c),
                m_turn_mcg = (if total_n_halos > 0 then m_turn_mcg acc / real total_n_halos
                              else mturn_m_nofb c),
                m_turn_reion = (if total_n_halos > 0
                                then m_turn_reion acc / real total_n_halos else 0) \<rparr>)))"

definition zero_grids :: "Params \<Rightarrow> HaloBox \<Rightarrow> HaloBox" where
  \<comment> \<open>the first loop of \<^verbatim>\<open>ComputeHaloBox\<close>: the eight grids it names\<close>
  "zero_grids P grids =
    (let n = HII_TOT_NUM_PIXELS (user_params P);
         z = (\<lambda>g i. if i < n then 0 else g i)
     in grids\<lparr> halo_mass_grid := z (halo_mass_grid grids),
               n_ion_grid := z (n_ion_grid grids),
               halo_sfr_grid := z (halo_sfr_grid grids),
               halo_sfr_mini := z (halo_sfr_mini grids),
               halo_stars := z (halo_stars grids),
               halo_stars_mini := z (halo_stars_mini grids),
               whalo_sfr := z (whalo_sfr grids),
               count := (\<lambda>i. if i < n then 0 else count grids i) \<rparr>)"

definition times_cell_volume :: "Params \<Rightarrow> HaloBox \<Rightarrow> HaloBox" where
  \<comment> \<open>the sub-sampler grids, back from densities to totals in the cell\<close>
  "times_cell_volume P grids =
    (let n = HII_TOT_NUM_PIXELS (user_params P);
         cell_volume = VOLUME (user_params P) / real n;
         m = (\<lambda>g i. if i < n then g i * cell_volume else g i)
     in grids\<lparr> halo_mass_grid := m (halo_mass_grid grids),
               halo_stars := m (halo_stars grids),
               halo_stars_mini := m (halo_stars_mini grids),
               halo_xray_grid := m (halo_xray_grid grids),
               n_ion_grid := m (n_ion_grid grids),
               halo_sfr_grid := m (halo_sfr_grid grids),
               halo_sfr_mini := m (halo_sfr_mini grids),
               whalo_sfr := m (whalo_sfr grids) \<rparr>)"

definition ComputeHaloBox ::
  "Params \<Rightarrow> Kernels \<Rightarrow> HaloKernels \<Rightarrow> real \<Rightarrow> real \<Rightarrow> grid \<Rightarrow> PerturbHaloField \<Rightarrow> TsBox
     \<Rightarrow> IonizedBox \<Rightarrow> HaloBox \<Rightarrow> HaloBox \<times> HaloProperties" where
  \<comment> \<open>the grids and the local \<^verbatim>\<open>averages_box\<close>, which the source only logs\<close>
  "ComputeHaloBox P K HK vcb0 z lowres_vcb halos previous_spin_temp previous_ionize_box grids =
    (let fo = flag_options P; up = user_params P;
         grids0 = zero_grids P grids;
         c = set_hbox_constants P K HK vcb0 z;
         M_min = minimum_source_mass K z
     in if FIXED_HALO_GRIDS fo
        then set_fixed_grids HK M_min (M_MAX_INTEGRAL (global_params P)) grids0
        else
          (let grids1 =
                 (if AVG_BELOW_SAMPLER up \<and> M_min < SAMPLER_MIN_MASS up
                  then times_cell_volume P
                         (fst (set_fixed_grids HK M_min (SAMPLER_MIN_MASS up) grids0))
                  else
                    (let t = get_mean_log10_turnovers P HK c lowres_vcb previous_spin_temp
                               previous_ionize_box
                     in grids0\<lparr> log10_Mcrit_ACG_ave := fst t,
                                log10_Mcrit_MCG_ave := fst (snd t) \<rparr>))
           in sum_halos_onto_grid P HK c lowres_vcb previous_spin_temp previous_ionize_box
                halos grids1))"


section \<open>Concrete inputs\<close>

text \<open>
  A one-cell lattice with every flag off and unit parameters, unit kernels and clean
  locals: the inputs at which the theorems below are instantiated, with the fields a
  case needs changed in place.
\<close>

definition P0 :: Params where
  "P0 = \<lparr> flag_options = \<lparr> USE_HALO_FIELD = False, USE_MINI_HALOS = False,
             USE_MASS_DEPENDENT_ZETA = False, USE_TS_FLUCT = False, INHOMO_RECO = False,
             CELL_RECOMB = False, PHOTON_CONS_TYPE = 0, FIX_VCB_AVG = False,
             FIXED_HALO_GRIDS = False \<rparr>,
           user_params = \<lparr> HII_TOT_NUM_PIXELS = 1, HII_DIM = 1, BOX_LEN = 1, NO_RNG = True,
             USE_RELATIVE_VELOCITIES = False, AVG_BELOW_SAMPLER = False,
             SAMPLER_MIN_MASS = 0, VOLUME = 1 \<rparr>,
           cosmo_params = \<lparr> OMb = 1, OMm = 1 \<rparr>,
           astro_params = \<lparr> F_STAR10 = 1, F_STAR7_MINI = 1, F_ESC10 = 1, F_ESC7_MINI = 1,
             HII_EFF_FACTOR = 1, M_TURN = 1, t_STAR = 1 \<rparr>,
           global_params = \<lparr> FIND_BUBBLE_ALGORITHM = 2, N_POISSON = 5,
             HII_ROUND_ERR = 1 / 10 ^ 5, ZPRIME_STEP_FACTOR = 102 / 100, Pop2_ion = 1,
             Pop3_ion = 1, ALPHA_UVB = 5, R_XLy_MAX = 4, NUM_FILTER_STEPS_FOR_Ts = 2,
             Z_HEAT_MAX = 35, VAVG = 0, M_MAX_INTEGRAL = 1 \<rparr>,
           consts_h = \<lparr> TINY = 1 / 10 ^ 30, FRACT_FLOAT_ERR = 1 / 10 ^ 7, RHOcrit = 1,
             L_FACTOR = 1, CMperMPC = 1, SIGMA_HI = 1, N_b0 = 1 \<rparr> \<rparr>"

definition K0 :: Kernels where
  "K0 = \<lparr> dtdz = (\<lambda>z. 10 ^ 15), t_hubble = (\<lambda>z. 1), RtoM = (\<lambda>r. r),
           minimum_source_mass = (\<lambda>z. 1 / 10), atomic_cooling_threshold = (\<lambda>z. 1),
           get_fesc_fit = (\<lambda>z. 1), T_RECFAST = (\<lambda>z. 1), xion_RECFAST = (\<lambda>z. 1 / 10 ^ 4),
           cT_approx = (\<lambda>z. 0), dicke = (\<lambda>z. 1),
           splined_recombination_rate = (\<lambda>z g. 1),
           ComputePartiallyIoinizedTemperature = (\<lambda>t x. t),
           ComputeFullyIoinizedTemperature = (\<lambda>zr z d. 1),
           in_sphere = (\<lambda>r c j. True), drdz = (\<lambda>z. 1), EvaluateSigma = (\<lambda>m. 1) \<rparr>"

definition U0 :: Uninit where
  "U0 = \<lparr> f_coll_total0 = 0, f_coll_MINI_total0 = 0, Splined_Fcoll_MINI0 = 0,
           prev_Splined_Fcoll0 = 0, prev_Splined_Fcoll_MINI0 = 0, finite_error0 = False \<rparr>"

definition box0 :: IonizedBox where
  \<comment> \<open>a fully neutral box with nothing recorded\<close>
  "box0 = \<lparr> xH_box = (\<lambda>ct. 1), z_re_box = (\<lambda>ct. - 1), Gamma12_box = (\<lambda>ct. 0),
             MFP_box = (\<lambda>ct. 0), dNrec_box = (\<lambda>ct. 0), temp_kinetic_all_gas = (\<lambda>ct. 0),
             Fcoll = (\<lambda>i. 0), Fcoll_MINI = (\<lambda>i. 0), mean_f_coll = 0, mean_f_coll_MINI = 0 \<rparr>"

definition T0 :: Tables where
  \<comment> \<open>tables that return the density they are asked at\<close>
  "T0 = \<lparr> EvaluateNion_Conditional = (\<lambda>d l g f. d),
           EvaluateNion_Conditional_MINI = (\<lambda>d l g f. d),
           EvaluateFcoll_delta = (\<lambda>d g. d) \<rparr>"

definition fg0 :: FilteredGrids where
  "fg0 = \<lparr> deltax_filtered = (\<lambda>ct. 0), xe_filtered = (\<lambda>ct. 0), N_rec_filtered = (\<lambda>ct. 0),
            prev_deltax_filtered = (\<lambda>ct. 0), log10_Mturnover_filtered = (\<lambda>ct. 5),
            log10_Mturnover_MINI_filtered = (\<lambda>ct. 5), stars_filtered = (\<lambda>ct. 0),
            sfr_filtered = (\<lambda>ct. 0) \<rparr>"

definition rs0 :: RadiusSpec where
  \<comment> \<open>the cell-scale radius\<close>
  "rs0 = \<lparr> R = 1, R_index = 0, f_coll_grid_mean = 1, f_coll_grid_mean_MINI = 1 \<rparr>"

definition rs1 :: RadiusSpec where
  \<comment> \<open>the next radius up\<close>
  "rs1 = \<lparr> R = 2, R_index = 1, f_coll_grid_mean = 1, f_coll_grid_mean_MINI = 1 \<rparr>"

definition P_mini :: Params where
  "P_mini = P0\<lparr> flag_options := (flag_options P0)\<lparr> USE_MINI_HALOS := True,
                 USE_MASS_DEPENDENT_ZETA := True \<rparr> \<rparr>"

definition spin0 :: TsBox where
  "spin0 = \<lparr> x_e_box = (\<lambda>ct. 0), Tk_box = (\<lambda>ct. 1), J_21_LW_box = (\<lambda>ct. 0) \<rparr>"

definition X0 :: Snapshot where
  \<comment> \<open>one radius, the cell scale; an expected ionised fraction of \<open>5/4\<close>\<close>
  "X0 = \<lparr> radii_spec = [rs0], filtered = (\<lambda>i. fg0), tables = (\<lambda>i. T0), draws = (\<lambda>ct. 0),
           Mcrit_LW = (\<lambda>ct. 1), Nion_General_z = 1, Nion_General_prev_z = 1,
           Nion_General_zmax = 1 / 100, Nion_General_MINI_z = 1, Nion_General_MINI_prev_z = 1,
           Nion_General_MINI_zmax = 0, Fcoll_General_z = 5 / 4, Fcoll_General_zmax = 0,
           redshift_pc = 8, stored_redshift_pc = 8, photoncons_finite = True \<rparr>"

definition X_two :: Snapshot where
  \<comment> \<open>a filtered density of 2 in cell 0 and of \<open>1/2\<close> in the others, at every radius\<close>
  "X_two = X0\<lparr> filtered :=
             (\<lambda>i. fg0\<lparr> deltax_filtered := (\<lambda>ct. if ct = 0 then 2 else 1 / 2) \<rparr>) \<rparr>"

definition P_sphere :: Params where
  \<comment> \<open>two cells and the sphere algorithm; the kernel \<^const>\<open>K0\<close> paints every cell\<close>
  "P_sphere = P0\<lparr> user_params := (user_params P0)\<lparr> HII_TOT_NUM_PIXELS := 2 \<rparr>,
                   global_params := (global_params P0)\<lparr> FIND_BUBBLE_ALGORITHM := 1 \<rparr> \<rparr>"

definition X_low :: Snapshot where
  \<comment> \<open>an expected ionised fraction of \<open>10\<^sup>-\<^sup>6\<close>, below \<^verbatim>\<open>HII_ROUND_ERR\<close>\<close>
  "X_low = X0\<lparr> Fcoll_General_z := 1 / 10 ^ 6 \<rparr>"

definition P_reco :: Params where
  "P_reco = P0\<lparr> flag_options := (flag_options P0)\<lparr> INHOMO_RECO := True \<rparr> \<rparr>"

definition P_halo :: Params where
  "P_halo = P0\<lparr> flag_options := (flag_options P0)\<lparr> USE_HALO_FIELD := True,
                 USE_MASS_DEPENDENT_ZETA := True \<rparr> \<rparr>"

text \<open>
  For the means of the halo-field mode: locals of \<^verbatim>\<open>calculate_fcoll_grid\<close> that hold 5
  and 3 when the function is entered, and a snapshot of two radii whose filtered star
  grid is \<open>1/4\<close> at the larger radius and \<open>1/2\<close> at the cell scale.
\<close>

definition U_stale :: Uninit where
  "U_stale = U0\<lparr> f_coll_total0 := 5, f_coll_MINI_total0 := 3 \<rparr>"

definition X_stars :: Snapshot where
  "X_stars = X0\<lparr> radii_spec := [rs0, rs1],
               filtered := (\<lambda>i. fg0\<lparr> stars_filtered :=
                                       (\<lambda>ct. if i = 0 then 1 / 2 else 1 / 4) \<rparr>) \<rparr>"

text \<open>
  For the halo-box gridder: kernels that give every halo empty properties, a catalogue of
  one halo of mass zero, and output buffers that hold 7 everywhere except the X-ray
  buffer, which holds 3.
\<close>

definition HK0 :: HaloKernels where
  "HK0 = \<lparr> lyman_werner_threshold = (\<lambda>z j v. 1), reionization_feedback = (\<lambda>z g zr. 1),
            HII_R_INDEX = (\<lambda>x y z. 0), set_halo_properties = (\<lambda>m a b r. zero_props),
            set_fixed_grids = (\<lambda>a b g. (g, zero_props)) \<rparr>"

definition hb0 :: HaloBox where
  "hb0 = \<lparr> halo_mass_grid = (\<lambda>i. 7), halo_stars = (\<lambda>i. 7), halo_stars_mini = (\<lambda>i. 7),
            n_ion_grid = (\<lambda>i. 7), halo_sfr_grid = (\<lambda>i. 7), halo_sfr_mini = (\<lambda>i. 7),
            whalo_sfr = (\<lambda>i. 7), halo_xray_grid = (\<lambda>i. 3), count = (\<lambda>i. 7),
            log10_Mcrit_ACG_ave = 0, log10_Mcrit_MCG_ave = 0 \<rparr>"

definition halos0 :: PerturbHaloField where
  "halos0 = \<lparr> n_halos = 1, halo_masses = (\<lambda>i. 0), halo_coords = (\<lambda>i. 0),
               star_rng = (\<lambda>i. 0), sfr_rng = (\<lambda>i. 0), xray_rng = (\<lambda>i. 0) \<rparr>"


section \<open>Unfolding the model on concrete inputs\<close>

lemmas model_defs = ComputeIonizedBox_def entry_error_def snapshot_constants_def
  snapshot_prev_def mean_box_def exp_global_hii_def set_mean_fcoll_def init_box_def
  photoncons_constants_def set_ionbox_constants_def radius_step_def radius_fcoll_def
  calculate_fcoll_grid_def fcoll_cell_def splined_fcolls_def clip_filtered_cell_def
  setup_integration_tables_def clip_grid_def floor_grid_means_def find_ionised_regions_def
  find_ionised_cell_def cell_crosses_def barrier_crossed_def ionised_cell_def partial_cell_def
  partial_fcolls_def N_halos_in_cell_def curr_fcoll_cell_def curr_fcoll_mini_cell_def
  curr_dens_cell_def fcoll_index_def xHII_from_xrays_cell_def rec_cell_def
  first_ionised_redshift_def update_in_sphere_def mean_fix_term_acg_def mean_fix_term_mcg_def
  set_ionized_temperatures_def ionized_temperature_cell_def set_fully_neutral_box_def
  set_recombination_rates_def recombination_cell_def crosses_at_radius_def
  crossed_in_snapshot_def trapezoid_fcoll_def clamp_splined_def setup_first_z_prevbox_def

lemmas fixture_defs = P0_def K0_def U0_def box0_def T0_def fg0_def rs0_def rs1_def spin0_def
  P_mini_def X0_def X_two_def P_sphere_def X_low_def P_reco_def P_halo_def

lemma upt_two: "[0 ..< 2] = [0, Suc 0]"
  by (simp add: numeral_2_eq_2)

section \<open>Cumulative recombinations\<close>

lemma recombination_fold_other:
  "n \<le> ct \<Longrightarrow>
   dNrec_box (fold (\<lambda>ct b. recombination_cell K c density prev b ct) [0 ..< n] box) ct
     = dNrec_box box ct"
  by (induction n) (simp_all add: recombination_cell_def Let_def)

lemma recombination_fold_frame:
  "xH_box (fold (\<lambda>ct b. recombination_cell K c density prev b ct) [0 ..< n] box) = xH_box box
   \<and> Gamma12_box (fold (\<lambda>ct b. recombination_cell K c density prev b ct) [0 ..< n] box)
       = Gamma12_box box"
  by (induction n) (simp_all add: recombination_cell_def Let_def)

lemma recombination_fold_cell:
  "ct < n \<Longrightarrow>
   dNrec_box (fold (\<lambda>ct b. recombination_cell K c density prev b ct) [0 ..< n] box) ct
     = dNrec_box prev ct
       + splined_recombination_rate K
           ((1 + density ct) powr (1 / 3) * (1 + stored_redshift c) - 1) (Gamma12_box box ct)
         * fabs_dtdz c * dz c * (1 - xH_box box ct)"
proof (induction n)
  case 0
  then show ?case by simp
next
  case (Suc n)
  show ?case
  proof (cases "ct = n")
    case True
    then show ?thesis
      using recombination_fold_frame [of K c density prev n box]
      by (simp add: recombination_cell_def Let_def)
  next
    case False
    with Suc show ?thesis by (simp add: recombination_cell_def Let_def)
  qed
qed

text \<open>
  The step in redshift: negative from the second snapshot on, where the previous
  redshift is the larger one, positive on the first.
\<close>

lemma dz_later_snapshots:
  "1 \<le> prev_z \<Longrightarrow> dz (set_ionbox_constants P K z prev_z) = z - prev_z"
  by (simp add: set_ionbox_constants_def Let_def)

lemma dz_first_snapshot:
  "prev_z < 1 \<Longrightarrow>
   dz (set_ionbox_constants P K z prev_z) = (1 + z) * (ZPRIME_STEP_FACTOR (global_params P) - 1)"
  by (simp add: set_ionbox_constants_def Let_def)

text \<open>
  C4. The claim: under \<^verbatim>\<open>inhomo_reco\<close> the cumulative recombination field never
  decreases from one snapshot to the next. The code at \<open>z = 8\<close> after \<open>z = 9\<close>, for a
  fully ionised cell with a recombination rate of 1 and \<open>|dt/dz| = 10\<^sup>1\<^sup>5\<close>: the field
  goes from 0 to \<open>-1\<close>.
\<close>

theorem dNrec_decreases_at_z8:
  "map_sum id (\<lambda>b. dNrec_box b 0)
     (set_recombination_rates P0 K0 U0 (set_ionbox_constants P0 K0 8 9) (\<lambda>ct. 0)
        box0 (box0\<lparr> xH_box := (\<lambda>ct. 0) \<rparr>)) = Inr (- 1)
   \<and> dNrec_box box0 0 = 0"
  by (simp add: set_recombination_rates_def recombination_cell_def set_ionbox_constants_def
        P0_def K0_def U0_def box0_def Let_def)


section \<open>The collapse-fraction grid with minihalos\<close>

lemma clamp_splined_range: "0 \<le> clamp_splined S \<and> clamp_splined S \<le> 1"
  by (simp add: clamp_splined_def Let_def)

lemma trapezoid_fcoll_bounds:
  "trapezoid_fcoll p S pS \<le> 1 \<and> min 1 (p - 1) \<le> trapezoid_fcoll p S pS"
  using clamp_splined_range [of S] clamp_splined_range [of pS]
  by (auto simp add: trapezoid_fcoll_def Let_def)

lemma fcoll_cell_mini:
  assumes "USE_MINI_HALOS (flag_options P)" "\<not> USE_HALO_FIELD (flag_options P)"
  shows "fst (fcoll_cell P U T c rspec prev ct (box, fg, t, tm))
        = (let i = fcoll_index P rspec ct;
               sp = splined_fcolls P U T c prev (clip_filtered_cell P c fg ct) ct
           in box\<lparr> Fcoll := (Fcoll box)
                      (i := trapezoid_fcoll (Fcoll prev i) (fst sp) (fst (snd (snd sp)))),
                    Fcoll_MINI := (Fcoll_MINI box)
                      (i := trapezoid_fcoll (Fcoll_MINI prev i) (fst (snd sp))
                              (snd (snd (snd sp)))) \<rparr>)"
  using assms
  by (simp add: fcoll_cell_def fcoll_index_def Let_def split: prod.splits)

lemma fcoll_fold_mini:
  assumes "USE_MINI_HALOS (flag_options P)" "\<not> USE_HALO_FIELD (flag_options P)"
  shows "ct < n \<Longrightarrow>
     (let b = fst (fold (fcoll_cell P U T c rspec prev) [0 ..< n] s); i = fcoll_index P rspec ct
      in Fcoll b i \<le> 1 \<and> min 1 (Fcoll prev i - 1) \<le> Fcoll b i
         \<and> Fcoll_MINI b i \<le> 1 \<and> min 1 (Fcoll_MINI prev i - 1) \<le> Fcoll_MINI b i)"
proof (induction n)
  case 0
  then show ?case by simp
next
  case (Suc n)
  obtain b fg t tm where s': "fold (fcoll_cell P U T c rspec prev) [0 ..< n] s = (b, fg, t, tm)"
    by (cases "fold (fcoll_cell P U T c rspec prev) [0 ..< n] s") auto
  note step = fcoll_cell_mini [OF assms, of U T c rspec prev n b fg t tm]
  show ?case
  proof (cases "ct = n")
    case True
    show ?thesis
      using step s' True trapezoid_fcoll_bounds by (simp add: Let_def)
  next
    case False
    with Suc.prems have "ct < n" by simp
    from Suc.IH [OF this] s' have ih:
      "Fcoll b (fcoll_index P rspec ct) \<le> 1"
      "min 1 (Fcoll prev (fcoll_index P rspec ct) - 1) \<le> Fcoll b (fcoll_index P rspec ct)"
      "Fcoll_MINI b (fcoll_index P rspec ct) \<le> 1"
      "min 1 (Fcoll_MINI prev (fcoll_index P rspec ct) - 1)
         \<le> Fcoll_MINI b (fcoll_index P rspec ct)"
      by (simp_all add: Let_def)
    have ne: "fcoll_index P rspec ct \<noteq> fcoll_index P rspec n"
      using False by (simp add: fcoll_index_def)
    show ?thesis using step s' ih ne by (simp add: Let_def)
  qed
qed

text \<open>
  C6, as amended. With minihalos and without the halo field, the collapse fractions
  \<^verbatim>\<open>calculate_fcoll_grid\<close> stores for a radius are at most 1 in every cell. From below
  they are bounded only through the previous snapshot's value: each of
  \<open>N\<^sub>n\<^sub>o\<^sub>w\<close> and \<open>N\<^sub>p\<^sub>r\<^sub>e\<^sub>v\<close> is brought into \<open>[0, 1]\<close> before the update, the sum is capped
  at 1 and has no floor (the source's floor at \<open>1e-40\<close> is commented out).
\<close>

theorem stored_fcoll_at_most_one:
  assumes "USE_MINI_HALOS (flag_options P)" "\<not> USE_HALO_FIELD (flag_options P)"
    and "ct < HII_TOT_NUM_PIXELS (user_params P)"
  shows "(let b = fst (calculate_fcoll_grid P U T c rspec prev box fg);
              i = fcoll_index P rspec ct
          in Fcoll b i \<le> 1 \<and> min 1 (Fcoll prev i - 1) \<le> Fcoll b i
             \<and> Fcoll_MINI b i \<le> 1 \<and> min 1 (Fcoll_MINI prev i - 1) \<le> Fcoll_MINI b i)"
  using fcoll_fold_mini [OF assms(1,2) assms(3), of U T c rspec prev
          "(box, fg, f_coll_total0 U, f_coll_MINI_total0 U)"]
  by (auto simp add: calculate_fcoll_grid_def Let_def split: prod.splits)

theorem stored_fcoll_at_most_one_witness:
  "USE_MINI_HALOS (flag_options P_mini) \<and> \<not> USE_HALO_FIELD (flag_options P_mini)
   \<and> (0::nat) < HII_TOT_NUM_PIXELS (user_params P_mini)
   \<and> Fcoll (fst (calculate_fcoll_grid P_mini U0 T0 (set_ionbox_constants P_mini K0 8 9) rs0
               box0 box0 fg0)) (fcoll_index P_mini rs0 0) \<le> 1
   \<and> Fcoll_MINI (fst (calculate_fcoll_grid P_mini U0 T0 (set_ionbox_constants P_mini K0 8 9)
               rs0 box0 box0 fg0)) (fcoll_index P_mini rs0 0) \<le> 1"
proof -
  have a: "USE_MINI_HALOS (flag_options P_mini)" by (simp add: P_mini_def P0_def)
  have b: "\<not> USE_HALO_FIELD (flag_options P_mini)" by (simp add: P_mini_def P0_def)
  have c: "(0::nat) < HII_TOT_NUM_PIXELS (user_params P_mini)" by (simp add: P_mini_def P0_def)
  from stored_fcoll_at_most_one [OF a b c, of U0 T0 "set_ionbox_constants P_mini K0 8 9" rs0
         box0 box0 fg0]
  show ?thesis using a b c by (simp add: Let_def)
qed

text \<open>
  The claim as stated, with its floor at \<open>1e-40\<close>, fails: a cell whose previous value is
  \<open>1/5\<close>, with \<open>N\<^sub>n\<^sub>o\<^sub>w = 1/10\<close> and \<open>N\<^sub>p\<^sub>r\<^sub>e\<^sub>v = 1/2\<close>, stores \<open>-1/5\<close>.
\<close>

theorem stored_fcoll_below_floor:
  "Fcoll (fst (calculate_fcoll_grid P_mini U0 T0 (set_ionbox_constants P_mini K0 8 9) rs0
        (box0\<lparr> mean_f_coll := 1, Fcoll := (\<lambda>i. 1 / 5) \<rparr>) box0
        (fg0\<lparr> deltax_filtered := (\<lambda>ct. 1 / 10), prev_deltax_filtered := (\<lambda>ct. 1 / 2) \<rparr>))) 0
     = - (1 / 5)
   \<and> - (1 / 5) < (1 / 10 ^ 40 :: real)"
  by (simp add: calculate_fcoll_grid_def fcoll_cell_def splined_fcolls_def clip_filtered_cell_def
        trapezoid_fcoll_def clamp_splined_def set_ionbox_constants_def
        P_mini_def P0_def K0_def U0_def T0_def fg0_def rs0_def box0_def Let_def)

section \<open>The deterministic mode of the partial ionisations\<close>

text \<open>
  C7, as amended. Under \<^verbatim>\<open>NO_RNG\<close> the number of halos in the cell is the constant 1,
  whatever \<^verbatim>\<open>N_POISSON\<close> is: the rescaled collapse fractions are those of the
  stochastic mode on a draw of 1.
\<close>

theorem no_rng_multiplier_is_one:
  "NO_RNG (user_params P) \<Longrightarrow>
     N_halos_in_cell P draw = 1
     \<and> partial_fcolls P c draw curr_dens curr_fcoll curr_fcoll_mini
         = partial_fcolls (P\<lparr> user_params := (user_params P)\<lparr> NO_RNG := False \<rparr> \<rparr>) c 1
             curr_dens curr_fcoll curr_fcoll_mini"
  by (simp add: partial_fcolls_def N_halos_in_cell_def Let_def)

theorem no_rng_multiplier_is_one_witness:
  "NO_RNG (user_params P0) \<and> N_halos_in_cell P0 7 = 1
   \<and> partial_fcolls P0 (set_ionbox_constants P0 K0 8 9) 7 0 (1 / 10) 0
       = partial_fcolls (P0\<lparr> user_params := (user_params P0)\<lparr> NO_RNG := False \<rparr> \<rparr>)
           (set_ionbox_constants P0 K0 8 9) 1 0 (1 / 10) 0"
proof -
  have a: "NO_RNG (user_params P0)" by (simp add: P0_def)
  from no_rng_multiplier_is_one [OF a, of 7 "set_ionbox_constants P0 K0 8 9" 0 "1 / 10" 0]
  show ?thesis using a by simp
qed

text \<open>
  The claim as stated fails: with \<^verbatim>\<open>N_POISSON = 5\<close> the multiplier is 1, not the
  expectation 5, and a cell with a collapse fraction of \<open>1/10\<close> gets \<open>1/50\<close>, where a
  draw of 5 gives \<open>1/10\<close>.
\<close>

theorem no_rng_multiplier_not_expectation:
  "N_halos_in_cell P0 0 = 1 \<and> N_POISSON (global_params P0) = 5
   \<and> partial_fcolls P0 (set_ionbox_constants P0 K0 8 9) 0 0 (1 / 10) 0 = (1 / 50, 0)
   \<and> partial_fcolls (P0\<lparr> user_params := (user_params P0)\<lparr> NO_RNG := False \<rparr> \<rparr>)
        (set_ionbox_constants P0 K0 8 9) 5 0 (1 / 10) 0 = (1 / 10, 0)"
  by (simp add: partial_fcolls_def N_halos_in_cell_def set_ionbox_constants_def
        P0_def K0_def Let_def)


section \<open>What the flagging changes\<close>

subsection \<open>One cell, and the cells before it\<close>

lemma find_ionised_cell_frame:
  "Fcoll (find_ionised_cell P K c rspec fg prev density spin ds fa fm ta tm box ct) = Fcoll box
   \<and> Fcoll_MINI (find_ionised_cell P K c rspec fg prev density spin ds fa fm ta tm box ct)
       = Fcoll_MINI box
   \<and> mean_f_coll (find_ionised_cell P K c rspec fg prev density spin ds fa fm ta tm box ct)
       = mean_f_coll box
   \<and> mean_f_coll_MINI (find_ionised_cell P K c rspec fg prev density spin ds fa fm ta tm box ct)
       = mean_f_coll_MINI box"
  by (simp add: find_ionised_cell_def ionised_cell_def partial_cell_def Let_def)

lemma cell_crosses_cong:
  "Fcoll b = Fcoll b' \<Longrightarrow> Fcoll_MINI b = Fcoll_MINI b' \<Longrightarrow>
   cell_crosses P c rspec fg prev density fa fm ta tm b ct
     = cell_crosses P c rspec fg prev density fa fm ta tm b' ct"
  by (simp add: cell_crosses_def curr_fcoll_cell_def curr_fcoll_mini_cell_def Let_def)

lemma find_ionised_cell_z_re:
  "z_re_box (find_ionised_cell P K c rspec fg prev density spin ds fa fm ta tm box ct)
     = (if cell_crosses P c rspec fg prev density fa fm ta tm box ct
        then (z_re_box box)(ct := first_ionised_redshift c prev ct) else z_re_box box)"
  by (simp add: find_ionised_cell_def ionised_cell_def partial_cell_def Let_def)

lemma flag_fold_frame:
  "Fcoll (fold (\<lambda>ct b. find_ionised_cell P K c rspec fg prev density spin ds fa fm ta tm b ct)
            [0 ..< n] box) = Fcoll box
   \<and> Fcoll_MINI (fold (\<lambda>ct b. find_ionised_cell P K c rspec fg prev density spin ds fa fm ta tm b ct)
            [0 ..< n] box) = Fcoll_MINI box
   \<and> mean_f_coll (fold (\<lambda>ct b. find_ionised_cell P K c rspec fg prev density spin ds fa fm ta tm b ct)
            [0 ..< n] box) = mean_f_coll box
   \<and> mean_f_coll_MINI (fold (\<lambda>ct b. find_ionised_cell P K c rspec fg prev density spin ds fa fm ta tm b ct)
            [0 ..< n] box) = mean_f_coll_MINI box"
  by (induction n) (simp_all add: find_ionised_cell_frame)

lemma flag_fold_z_re:
  "z_re_box (fold (\<lambda>ct b. find_ionised_cell P K c rspec fg prev density spin ds fa fm ta tm b ct)
            [0 ..< n] box) j
     = (if j < n \<and> cell_crosses P c rspec fg prev density fa fm ta tm box j
        then first_ionised_redshift c prev j else z_re_box box j)"
proof (induction n)
  case 0
  then show ?case by simp
next
  case (Suc n)
  have "cell_crosses P c rspec fg prev density fa fm ta tm
          (fold (\<lambda>ct b. find_ionised_cell P K c rspec fg prev density spin ds fa fm ta tm b ct)
            [0 ..< n] box) n
        = cell_crosses P c rspec fg prev density fa fm ta tm box n"
    by (rule cell_crosses_cong) (simp_all add: flag_fold_frame)
  with Suc show ?case
    by (simp add: find_ionised_cell_z_re less_Suc_eq)
qed

lemma find_ionised_cell_keeps_zero:
  assumes "0 \<le> TINY (consts_h P)"
    and "xH_box box j = 0"
  shows "xH_box (find_ionised_cell P K c rspec fg prev density spin ds fa fm ta tm box ct) j = 0"
  using assms
  by (auto simp add: find_ionised_cell_def ionised_cell_def partial_cell_def update_in_sphere_def
        Let_def)

lemma find_ionised_cell_gamma_frame:
  assumes "xH_box box j \<le> FRACT_FLOAT_ERR (consts_h P)"
  shows "Gamma12_box (find_ionised_cell P K c rspec fg prev density spin ds fa fm ta tm box ct) j
           = Gamma12_box box j
       \<and> MFP_box (find_ionised_cell P K c rspec fg prev density spin ds fa fm ta tm box ct) j
           = MFP_box box j"
  using assms
  by (auto simp add: find_ionised_cell_def ionised_cell_def partial_cell_def Let_def)

lemma find_ionised_cell_gamma_set:
  assumes "FIND_BUBBLE_ALGORITHM (global_params P) = 2
           \<or> (FIND_BUBBLE_ALGORITHM (global_params P) = 1 \<and> (\<forall>r i. in_sphere K r i i))"
    and "ct < HII_TOT_NUM_PIXELS (user_params P)"
    and "Gamma12_box (find_ionised_cell P K c rspec fg prev density spin ds fa fm ta tm box ct) j
           \<noteq> Gamma12_box box j
         \<or> MFP_box (find_ionised_cell P K c rspec fg prev density spin ds fa fm ta tm box ct) j
           \<noteq> MFP_box box j"
  shows "j = ct \<and> cell_crosses P c rspec fg prev density fa fm ta tm box ct
         \<and> xH_box (find_ionised_cell P K c rspec fg prev density spin ds fa fm ta tm box ct) j = 0"
  using assms
  by (auto simp add: find_ionised_cell_def ionised_cell_def partial_cell_def update_in_sphere_def
        Let_def split: if_splits)

lemma flag_fold_keeps_zero:
  assumes "0 \<le> TINY (consts_h P)" and "xH_box box j = 0"
  shows "xH_box (fold (\<lambda>ct b. find_ionised_cell P K c rspec fg prev density spin ds fa fm ta tm b ct)
            [0 ..< n] box) j = 0"
  by (induction n) (simp_all add: assms find_ionised_cell_keeps_zero)

lemma flag_fold_gamma_frame:
  assumes "0 \<le> TINY (consts_h P)" "0 \<le> FRACT_FLOAT_ERR (consts_h P)" and "xH_box box j = 0"
  shows "Gamma12_box (fold (\<lambda>ct b. find_ionised_cell P K c rspec fg prev density spin ds fa fm ta tm b ct)
            [0 ..< n] box) j = Gamma12_box box j
       \<and> MFP_box (fold (\<lambda>ct b. find_ionised_cell P K c rspec fg prev density spin ds fa fm ta tm b ct)
            [0 ..< n] box) j = MFP_box box j"
proof (induction n)
  case 0
  then show ?case by simp
next
  case (Suc n)
  have "xH_box (fold (\<lambda>ct b. find_ionised_cell P K c rspec fg prev density spin ds fa fm ta tm b ct)
            [0 ..< n] box) j \<le> FRACT_FLOAT_ERR (consts_h P)"
    using flag_fold_keeps_zero [OF assms(1,3)] assms(2) by simp
  from find_ionised_cell_gamma_frame [OF this] Suc show ?case by simp
qed

lemma flag_fold_gamma_set:
  assumes alg: "FIND_BUBBLE_ALGORITHM (global_params P) = 2
           \<or> (FIND_BUBBLE_ALGORITHM (global_params P) = 1 \<and> (\<forall>r i. in_sphere K r i i))"
    and tiny: "0 \<le> TINY (consts_h P)"
  shows "n \<le> HII_TOT_NUM_PIXELS (user_params P) \<Longrightarrow>
     Gamma12_box (fold (\<lambda>ct b. find_ionised_cell P K c rspec fg prev density spin ds fa fm ta tm b ct)
            [0 ..< n] box) j \<noteq> Gamma12_box box j
     \<or> MFP_box (fold (\<lambda>ct b. find_ionised_cell P K c rspec fg prev density spin ds fa fm ta tm b ct)
            [0 ..< n] box) j \<noteq> MFP_box box j \<Longrightarrow>
     j < n \<and> cell_crosses P c rspec fg prev density fa fm ta tm box j
     \<and> xH_box (fold (\<lambda>ct b. find_ionised_cell P K c rspec fg prev density spin ds fa fm ta tm b ct)
            [0 ..< n] box) j = 0"
proof (induction n)
  case 0
  then show ?case by simp
next
  case (Suc n)
  let ?b = "fold (\<lambda>ct b. find_ionised_cell P K c rspec fg prev density spin ds fa fm ta tm b ct)
            [0 ..< n] box"
  let ?b' = "find_ionised_cell P K c rspec fg prev density spin ds fa fm ta tm ?b n"
  have b': "fold (\<lambda>ct b. find_ionised_cell P K c rspec fg prev density spin ds fa fm ta tm b ct)
            [0 ..< Suc n] box = ?b'" by simp
  have n: "n \<le> HII_TOT_NUM_PIXELS (user_params P)" "n < HII_TOT_NUM_PIXELS (user_params P)"
    using Suc.prems(1) by simp_all
  show ?case
  proof (cases "Gamma12_box ?b j \<noteq> Gamma12_box box j \<or> MFP_box ?b j \<noteq> MFP_box box j")
    case True
    from Suc.IH [OF n(1) True] have ih: "j < n"
      "cell_crosses P c rspec fg prev density fa fm ta tm box j" "xH_box ?b j = 0" by simp_all
    from find_ionised_cell_keeps_zero [OF tiny ih(3)] ih(1,2) show ?thesis
      unfolding b' by simp
  next
    case False
    with Suc.prems(2) have ch: "Gamma12_box ?b' j \<noteq> Gamma12_box ?b j \<or> MFP_box ?b' j \<noteq> MFP_box ?b j"
      unfolding b' by auto
    from find_ionised_cell_gamma_set [OF alg n(2) ch]
    have r: "j = n" "cell_crosses P c rspec fg prev density fa fm ta tm ?b n" "xH_box ?b' j = 0"
      by blast+
    have "cell_crosses P c rspec fg prev density fa fm ta tm ?b n
            = cell_crosses P c rspec fg prev density fa fm ta tm box n"
      by (rule cell_crosses_cong) (simp_all add: flag_fold_frame)
    with r show ?thesis unfolding b' by simp
  qed
qed

lemma flag_fold_frame2:
  "dNrec_box (fold (\<lambda>ct b. find_ionised_cell P K c rspec fg prev density spin ds fa fm ta tm b ct)
            [0 ..< n] box) = dNrec_box box"
  by (induction n) (simp_all add: find_ionised_cell_def ionised_cell_def partial_cell_def Let_def)

subsection \<open>One call of \<^verbatim>\<open>find_ionised_regions\<close>\<close>

lemma find_ionised_regions_z_re:
  "z_re_box (find_ionised_regions P K c rspec fg prev density spin ds fa fm box) j
     = (if j < HII_TOT_NUM_PIXELS (user_params P)
           \<and> cell_crosses P c rspec fg prev density fa fm (mean_fix_term_acg c rspec box)
               (mean_fix_term_mcg c rspec box) box j
        then first_ionised_redshift c prev j else z_re_box box j)"
proof -
  have "cell_crosses P c rspec fg prev density fa fm (mean_fix_term_acg c rspec box)
               (mean_fix_term_mcg c rspec box)
           (box\<lparr> mean_f_coll := f_coll_grid_mean rspec,
                 mean_f_coll_MINI := f_coll_grid_mean_MINI rspec \<rparr>) j
        = cell_crosses P c rspec fg prev density fa fm (mean_fix_term_acg c rspec box)
               (mean_fix_term_mcg c rspec box) box j"
    by (rule cell_crosses_cong) simp_all
  then show ?thesis
    by (auto simp add: find_ionised_regions_def Let_def flag_fold_z_re)
qed

lemma find_ionised_regions_means:
  "mean_f_coll (find_ionised_regions P K c rspec fg prev density spin ds fa fm box)
     = (if fix_mean c then mean_f_coll box else f_coll_grid_mean rspec)
   \<and> mean_f_coll_MINI (find_ionised_regions P K c rspec fg prev density spin ds fa fm box)
     = (if fix_mean c then mean_f_coll_MINI box else f_coll_grid_mean_MINI rspec)"
  by (simp add: find_ionised_regions_def Let_def flag_fold_frame)

lemma find_ionised_regions_keeps_zero:
  assumes "0 \<le> TINY (consts_h P)" and "xH_box box j = 0"
  shows "xH_box (find_ionised_regions P K c rspec fg prev density spin ds fa fm box) j = 0"
  using assms by (simp add: find_ionised_regions_def Let_def flag_fold_keeps_zero)

lemma find_ionised_regions_gamma_frame:
  assumes "0 \<le> TINY (consts_h P)" "0 \<le> FRACT_FLOAT_ERR (consts_h P)" and "xH_box box j = 0"
  shows "Gamma12_box (find_ionised_regions P K c rspec fg prev density spin ds fa fm box) j
           = Gamma12_box box j
       \<and> MFP_box (find_ionised_regions P K c rspec fg prev density spin ds fa fm box) j
           = MFP_box box j"
  using assms by (simp add: find_ionised_regions_def Let_def flag_fold_gamma_frame)

lemma find_ionised_regions_gamma_set:
  assumes alg: "FIND_BUBBLE_ALGORITHM (global_params P) = 2
           \<or> (FIND_BUBBLE_ALGORITHM (global_params P) = 1 \<and> (\<forall>r i. in_sphere K r i i))"
    and tiny: "0 \<le> TINY (consts_h P)"
    and ch: "Gamma12_box (find_ionised_regions P K c rspec fg prev density spin ds fa fm box) j
               \<noteq> Gamma12_box box j
             \<or> MFP_box (find_ionised_regions P K c rspec fg prev density spin ds fa fm box) j
               \<noteq> MFP_box box j"
  shows "j < HII_TOT_NUM_PIXELS (user_params P)
     \<and> cell_crosses P c rspec fg prev density fa fm (mean_fix_term_acg c rspec box)
               (mean_fix_term_mcg c rspec box) box j
     \<and> xH_box (find_ionised_regions P K c rspec fg prev density spin ds fa fm box) j = 0"
proof -
  let ?b0 = "if fix_mean c then box
             else box\<lparr> mean_f_coll := f_coll_grid_mean rspec,
                       mean_f_coll_MINI := f_coll_grid_mean_MINI rspec \<rparr>"
  have eq: "find_ionised_regions P K c rspec fg prev density spin ds fa fm box
      = fold (\<lambda>ct b. find_ionised_cell P K c rspec fg prev density spin ds fa fm
                        (mean_fix_term_acg c rspec box) (mean_fix_term_mcg c rspec box) b ct)
          [0 ..< HII_TOT_NUM_PIXELS (user_params P)] ?b0"
    by (simp add: find_ionised_regions_def Let_def)
  have g: "Gamma12_box ?b0 = Gamma12_box box" "MFP_box ?b0 = MFP_box box" by simp_all
  have cc: "cell_crosses P c rspec fg prev density fa fm (mean_fix_term_acg c rspec box)
               (mean_fix_term_mcg c rspec box) ?b0 j
        = cell_crosses P c rspec fg prev density fa fm (mean_fix_term_acg c rspec box)
               (mean_fix_term_mcg c rspec box) box j"
    by (rule cell_crosses_cong) simp_all
  from flag_fold_gamma_set [OF alg tiny order_refl, of c rspec fg prev density spin ds fa fm
         "mean_fix_term_acg c rspec box" "mean_fix_term_mcg c rspec box" ?b0 j]
       ch cc
  show ?thesis unfolding eq g by blast
qed


lemma find_ionised_cell_crossing_zero:
  assumes "FIND_BUBBLE_ALGORITHM (global_params P) = 2
           \<or> (FIND_BUBBLE_ALGORITHM (global_params P) = 1 \<and> (\<forall>r i. in_sphere K r i i))"
    and "ct < HII_TOT_NUM_PIXELS (user_params P)"
    and "cell_crosses P c rspec fg prev density fa fm ta tm box ct"
  shows "xH_box (find_ionised_cell P K c rspec fg prev density spin ds fa fm ta tm box ct) ct = 0"
  using assms
  by (auto simp add: find_ionised_cell_def ionised_cell_def update_in_sphere_def Let_def)

lemma flag_fold_crossing_zero:
  assumes alg: "FIND_BUBBLE_ALGORITHM (global_params P) = 2
           \<or> (FIND_BUBBLE_ALGORITHM (global_params P) = 1 \<and> (\<forall>r i. in_sphere K r i i))"
    and tiny: "0 \<le> TINY (consts_h P)"
    and cr: "cell_crosses P c rspec fg prev density fa fm ta tm box j"
  shows "n \<le> HII_TOT_NUM_PIXELS (user_params P) \<Longrightarrow> j < n \<Longrightarrow>
     xH_box (fold (\<lambda>ct b. find_ionised_cell P K c rspec fg prev density spin ds fa fm ta tm b ct)
            [0 ..< n] box) j = 0"
proof (induction n)
  case 0
  then show ?case by simp
next
  case (Suc n)
  let ?b = "fold (\<lambda>ct b. find_ionised_cell P K c rspec fg prev density spin ds fa fm ta tm b ct)
            [0 ..< n] box"
  show ?case
  proof (cases "j = n")
    case True
    have "cell_crosses P c rspec fg prev density fa fm ta tm ?b n
            = cell_crosses P c rspec fg prev density fa fm ta tm box n"
      by (rule cell_crosses_cong) (simp_all add: flag_fold_frame)
    with cr True have "cell_crosses P c rspec fg prev density fa fm ta tm ?b n" by simp
    from find_ionised_cell_crossing_zero [OF alg _ this] Suc.prems True
    show ?thesis by simp
  next
    case False
    with Suc have "xH_box ?b j = 0" by simp
    from find_ionised_cell_keeps_zero [OF tiny this] show ?thesis by simp
  qed
qed

lemma find_ionised_regions_crossing_zero:
  assumes alg: "FIND_BUBBLE_ALGORITHM (global_params P) = 2
           \<or> (FIND_BUBBLE_ALGORITHM (global_params P) = 1 \<and> (\<forall>r i. in_sphere K r i i))"
    and tiny: "0 \<le> TINY (consts_h P)"
    and j: "j < HII_TOT_NUM_PIXELS (user_params P)"
    and cr: "cell_crosses P c rspec fg prev density fa fm (mean_fix_term_acg c rspec box)
               (mean_fix_term_mcg c rspec box) box j"
  shows "xH_box (find_ionised_regions P K c rspec fg prev density spin ds fa fm box) j = 0"
proof -
  let ?b0 = "if fix_mean c then box
             else box\<lparr> mean_f_coll := f_coll_grid_mean rspec,
                       mean_f_coll_MINI := f_coll_grid_mean_MINI rspec \<rparr>"
  have eq: "find_ionised_regions P K c rspec fg prev density spin ds fa fm box
      = fold (\<lambda>ct b. find_ionised_cell P K c rspec fg prev density spin ds fa fm
                        (mean_fix_term_acg c rspec box) (mean_fix_term_mcg c rspec box) b ct)
          [0 ..< HII_TOT_NUM_PIXELS (user_params P)] ?b0"
    by (simp add: find_ionised_regions_def Let_def)
  have cc: "cell_crosses P c rspec fg prev density fa fm (mean_fix_term_acg c rspec box)
               (mean_fix_term_mcg c rspec box) ?b0 j
        = cell_crosses P c rspec fg prev density fa fm (mean_fix_term_acg c rspec box)
               (mean_fix_term_mcg c rspec box) box j"
    by (rule cell_crosses_cong) simp_all
  with cr have "cell_crosses P c rspec fg prev density fa fm (mean_fix_term_acg c rspec box)
               (mean_fix_term_mcg c rspec box) ?b0 j" by simp
  from flag_fold_crossing_zero [OF alg tiny this order_refl j] show ?thesis
    unfolding eq .
qed

subsection \<open>The collapse-fraction pass leaves the flags alone\<close>

lemma fcoll_cell_frame:
  "xH_box (fst (fcoll_cell P U T c rspec prev ct s)) = xH_box (fst s)
   \<and> z_re_box (fst (fcoll_cell P U T c rspec prev ct s)) = z_re_box (fst s)
   \<and> Gamma12_box (fst (fcoll_cell P U T c rspec prev ct s)) = Gamma12_box (fst s)
   \<and> MFP_box (fst (fcoll_cell P U T c rspec prev ct s)) = MFP_box (fst s)
   \<and> mean_f_coll (fst (fcoll_cell P U T c rspec prev ct s)) = mean_f_coll (fst s)
   \<and> mean_f_coll_MINI (fst (fcoll_cell P U T c rspec prev ct s)) = mean_f_coll_MINI (fst s)"
  by (cases s) (simp add: fcoll_cell_def Let_def split: prod.splits)

lemma fcoll_fold_frame:
  "xH_box (fst (fold (fcoll_cell P U T c rspec prev) [0 ..< n] s)) = xH_box (fst s)
   \<and> z_re_box (fst (fold (fcoll_cell P U T c rspec prev) [0 ..< n] s)) = z_re_box (fst s)
   \<and> Gamma12_box (fst (fold (fcoll_cell P U T c rspec prev) [0 ..< n] s)) = Gamma12_box (fst s)
   \<and> MFP_box (fst (fold (fcoll_cell P U T c rspec prev) [0 ..< n] s)) = MFP_box (fst s)
   \<and> mean_f_coll (fst (fold (fcoll_cell P U T c rspec prev) [0 ..< n] s)) = mean_f_coll (fst s)
   \<and> mean_f_coll_MINI (fst (fold (fcoll_cell P U T c rspec prev) [0 ..< n] s))
       = mean_f_coll_MINI (fst s)"
  by (induction n) (simp_all add: fcoll_cell_frame)

lemma radius_fcoll_frame:
  "xH_box (fst (radius_fcoll P U X c prev fa fm r box)) = xH_box box
   \<and> z_re_box (fst (radius_fcoll P U X c prev fa fm r box)) = z_re_box box
   \<and> Gamma12_box (fst (radius_fcoll P U X c prev fa fm r box)) = Gamma12_box box
   \<and> MFP_box (fst (radius_fcoll P U X c prev fa fm r box)) = MFP_box box
   \<and> mean_f_coll (fst (radius_fcoll P U X c prev fa fm r box)) = mean_f_coll box
   \<and> mean_f_coll_MINI (fst (radius_fcoll P U X c prev fa fm r box)) = mean_f_coll_MINI box"
proof -
  let ?fg = "if \<not> USE_HALO_FIELD (flag_options P)
             then setup_integration_tables P (filtered X (R_index r))
             else filtered X (R_index r)"
  have "fst (radius_fcoll P U X c prev fa fm r box)
      = fst (fold (fcoll_cell P U (tables X (R_index r)) c r prev)
               [0 ..< HII_TOT_NUM_PIXELS (user_params P)]
               (box, ?fg, f_coll_total0 U, f_coll_MINI_total0 U))"
    by (simp add: radius_fcoll_def calculate_fcoll_grid_def Let_def split: prod.splits)
  then show ?thesis
    using fcoll_fold_frame [of P U "tables X (R_index r)" c r prev
            "HII_TOT_NUM_PIXELS (user_params P)"
            "(box, ?fg, f_coll_total0 U, f_coll_MINI_total0 U)"]
    by simp
qed

subsection \<open>One radius\<close>


lemma radius_step_means:
  "\<not> fix_mean c \<Longrightarrow>
   mean_f_coll (radius_step P K U X c prev density spin fa fm r box)
     = f_coll_grid_mean (snd (snd (radius_fcoll P U X c prev fa fm r box)))
   \<and> mean_f_coll_MINI (radius_step P K U X c prev density spin fa fm r box)
     = f_coll_grid_mean_MINI (snd (snd (radius_fcoll P U X c prev fa fm r box)))"
  by (simp add: radius_step_def find_ionised_regions_means split: prod.splits)

lemma radius_step_keeps_zero:
  assumes "0 \<le> TINY (consts_h P)" "0 \<le> FRACT_FLOAT_ERR (consts_h P)" and "xH_box box j = 0"
  shows "xH_box (radius_step P K U X c prev density spin fa fm r box) j = 0
       \<and> Gamma12_box (radius_step P K U X c prev density spin fa fm r box) j = Gamma12_box box j
       \<and> MFP_box (radius_step P K U X c prev density spin fa fm r box) j = MFP_box box j"
proof -
  obtain box1 fg2 r2 where rf: "radius_fcoll P U X c prev fa fm r box = (box1, fg2, r2)"
    by (cases "radius_fcoll P U X c prev fa fm r box") auto
  with radius_fcoll_frame [of P U X c prev fa fm r box]
  have fr: "xH_box box1 = xH_box box" "Gamma12_box box1 = Gamma12_box box"
    "MFP_box box1 = MFP_box box" by simp_all
  with assms(3) have z: "xH_box box1 j = 0" by simp
  from find_ionised_regions_keeps_zero [OF assms(1) z]
       find_ionised_regions_gamma_frame [OF assms(1,2) z] rf fr
  show ?thesis by (simp add: radius_step_def)
qed

lemma radius_step_gamma_set:
  assumes alg: "FIND_BUBBLE_ALGORITHM (global_params P) = 2
           \<or> (FIND_BUBBLE_ALGORITHM (global_params P) = 1 \<and> (\<forall>r i. in_sphere K r i i))"
    and tiny: "0 \<le> TINY (consts_h P)"
    and ch: "Gamma12_box (radius_step P K U X c prev density spin fa fm r box) j
               \<noteq> Gamma12_box box j
             \<or> MFP_box (radius_step P K U X c prev density spin fa fm r box) j \<noteq> MFP_box box j"
  shows "crosses_at_radius P U X c prev density fa fm r box j"
proof -
  obtain box1 fg2 r2 where rf: "radius_fcoll P U X c prev fa fm r box = (box1, fg2, r2)"
    by (cases "radius_fcoll P U X c prev fa fm r box") auto
  with radius_fcoll_frame [of P U X c prev fa fm r box]
  have fr: "Gamma12_box box1 = Gamma12_box box" "MFP_box box1 = MFP_box box" by simp_all
  from ch rf fr have "Gamma12_box (find_ionised_regions P K c r2 fg2 prev density spin (draws X)
                        fa fm box1) j \<noteq> Gamma12_box box1 j
      \<or> MFP_box (find_ionised_regions P K c r2 fg2 prev density spin (draws X) fa fm box1) j
          \<noteq> MFP_box box1 j"
    by (simp add: radius_step_def)
  from find_ionised_regions_gamma_set [OF alg tiny this] rf
  show ?thesis by (simp add: crosses_at_radius_def)
qed

lemma radius_step_crossing_zero:
  assumes alg: "FIND_BUBBLE_ALGORITHM (global_params P) = 2
           \<or> (FIND_BUBBLE_ALGORITHM (global_params P) = 1 \<and> (\<forall>r i. in_sphere K r i i))"
    and tiny: "0 \<le> TINY (consts_h P)"
    and cr: "crosses_at_radius P U X c prev density fa fm r box j"
  shows "xH_box (radius_step P K U X c prev density spin fa fm r box) j = 0"
proof -
  obtain box1 fg2 r2 where rf: "radius_fcoll P U X c prev fa fm r box = (box1, fg2, r2)"
    by (cases "radius_fcoll P U X c prev fa fm r box") auto
  from cr rf have "j < HII_TOT_NUM_PIXELS (user_params P)"
    "cell_crosses P c r2 fg2 prev density fa fm (mean_fix_term_acg c r2 box1)
       (mean_fix_term_mcg c r2 box1) box1 j"
    by (simp_all add: crosses_at_radius_def)
  from find_ionised_regions_crossing_zero [OF alg tiny this] rf
  show ?thesis by (simp add: radius_step_def)
qed

subsection \<open>The loop over the radii\<close>


lemma R_loop_keeps_zero:
  assumes "0 \<le> TINY (consts_h P)" "0 \<le> FRACT_FLOAT_ERR (consts_h P)"
  shows "xH_box box j = 0 \<Longrightarrow>
         xH_box (R_loop P K U X c prev density spin fa fm rs box) j = 0
       \<and> Gamma12_box (R_loop P K U X c prev density spin fa fm rs box) j = Gamma12_box box j
       \<and> MFP_box (R_loop P K U X c prev density spin fa fm rs box) j = MFP_box box j"
proof (induction rs arbitrary: box)
  case Nil
  then show ?case by simp
next
  case (Cons r rs)
  from radius_step_keeps_zero [OF assms Cons.prems, of K U X c prev density spin fa fm r]
       Cons.IH [of "radius_step P K U X c prev density spin fa fm r box"] Cons.prems
  show ?case by simp
qed

section \<open>The snapshot\<close>

subsection \<open>What the other passes leave alone\<close>











subsection \<open>The fully neutral early-out\<close>



subsection \<open>The redshift of reionisation\<close>




subsection \<open>The photo-ionisation rate and the mean free path\<close>

text \<open>
  C2. With \<^verbatim>\<open>TINY\<close> and \<^verbatim>\<open>FRACT_FLOAT_ERR\<close> not negative, under the centre algorithm
  (or the sphere algorithm with a kernel that paints the centre of its sphere): a pass
  of the loop body changes \<open>\<Gamma>\<^sub>1\<^sub>2\<close> or the mean free path of a cell only if the cell
  crosses the barrier at that radius and its \<open>xH\<close> was not 0; a cell that crosses has
  \<open>xH = 0\<close> after the pass; and from a box where the cell's \<open>xH\<close> is 0, the loop over
  any further radii leaves its \<open>\<Gamma>\<^sub>1\<^sub>2\<close>, its mean free path and its \<open>xH\<close> as they are.
  So both are written at the first radius at which the cell crosses, and never again.
\<close>

theorem gamma_mfp_set_at_first_crossing:
  assumes tiny: "0 \<le> TINY (consts_h P)" and fract: "0 \<le> FRACT_FLOAT_ERR (consts_h P)"
    and alg: "FIND_BUBBLE_ALGORITHM (global_params P) = 2
           \<or> (FIND_BUBBLE_ALGORITHM (global_params P) = 1 \<and> (\<forall>r i. in_sphere K r i i))"
  shows "(Gamma12_box (radius_step P K U X c prev density spin fa fm r box) ct
            \<noteq> Gamma12_box box ct
          \<or> MFP_box (radius_step P K U X c prev density spin fa fm r box) ct \<noteq> MFP_box box ct
          \<longrightarrow> crosses_at_radius P U X c prev density fa fm r box ct \<and> xH_box box ct \<noteq> 0)
       \<and> (crosses_at_radius P U X c prev density fa fm r box ct
          \<longrightarrow> xH_box (radius_step P K U X c prev density spin fa fm r box) ct = 0)
       \<and> (xH_box box ct = 0
          \<longrightarrow> (\<forall>rs. Gamma12_box (R_loop P K U X c prev density spin fa fm rs box) ct
                       = Gamma12_box box ct
                    \<and> MFP_box (R_loop P K U X c prev density spin fa fm rs box) ct
                       = MFP_box box ct
                    \<and> xH_box (R_loop P K U X c prev density spin fa fm rs box) ct = 0))"
  using radius_step_gamma_set [OF alg tiny, of U X c prev density spin fa fm r box ct]
        radius_step_keeps_zero [OF tiny fract, of box ct K U X c prev density spin fa fm r]
        radius_step_crossing_zero [OF alg tiny, of U X c prev density fa fm r box ct spin]
        R_loop_keeps_zero [OF tiny fract, of box ct K U X c prev density spin fa fm]
  by blast

theorem gamma_mfp_set_at_first_crossing_witness:
  "0 \<le> TINY (consts_h P_reco) \<and> 0 \<le> FRACT_FLOAT_ERR (consts_h P_reco)
   \<and> FIND_BUBBLE_ALGORITHM (global_params P_reco) = 2
   \<and> crosses_at_radius P_reco U0 X_two (set_ionbox_constants P_reco K0 8 9) box0 (\<lambda>ct. 0) 0 0
        rs1 (box0\<lparr> mean_f_coll := 2 \<rparr>) 0
   \<and> xH_box (radius_step P_reco K0 U0 X_two (set_ionbox_constants P_reco K0 8 9) box0 (\<lambda>ct. 0)
        spin0 0 0 rs1 (box0\<lparr> mean_f_coll := 2 \<rparr>)) 0 = 0
   \<and> Gamma12_box (R_loop P_reco K0 U0 X_two (set_ionbox_constants P_reco K0 8 9) box0 (\<lambda>ct. 0)
        spin0 0 0 [rs0]
          (radius_step P_reco K0 U0 X_two (set_ionbox_constants P_reco K0 8 9) box0 (\<lambda>ct. 0)
             spin0 0 0 rs1 (box0\<lparr> mean_f_coll := 2 \<rparr>))) 0
     = Gamma12_box (radius_step P_reco K0 U0 X_two (set_ionbox_constants P_reco K0 8 9) box0
          (\<lambda>ct. 0) spin0 0 0 rs1 (box0\<lparr> mean_f_coll := 2 \<rparr>)) 0"
proof -
  let ?c = "set_ionbox_constants P_reco K0 8 9"
  let ?b = "box0\<lparr> mean_f_coll := 2 \<rparr>"
  let ?b1 = "radius_step P_reco K0 U0 X_two ?c box0 (\<lambda>ct. 0) spin0 0 0 rs1 ?b"
  have t: "0 \<le> TINY (consts_h P_reco)" and f: "0 \<le> FRACT_FLOAT_ERR (consts_h P_reco)"
    by (simp_all add: P_reco_def P0_def)
  have a2: "FIND_BUBBLE_ALGORITHM (global_params P_reco) = 2" by (simp add: P_reco_def P0_def)
  then have a: "FIND_BUBBLE_ALGORITHM (global_params P_reco) = 2
           \<or> (FIND_BUBBLE_ALGORITHM (global_params P_reco) = 1 \<and> (\<forall>r i. in_sphere K0 r i i))"
    by simp
  have cr: "crosses_at_radius P_reco U0 X_two ?c box0 (\<lambda>ct. 0) 0 0 rs1 ?b 0"
    by (simp add: model_defs fixture_defs P_reco_def Let_def)
  from gamma_mfp_set_at_first_crossing [OF t f a, of U0 X_two ?c box0 "\<lambda>ct. 0" spin0 0 0 rs1 ?b 0]
       cr
  have z: "xH_box ?b1 0 = 0" by blast
  from gamma_mfp_set_at_first_crossing [OF t f a, of U0 X_two ?c box0 "\<lambda>ct. 0" spin0 0 0 rs1 ?b1 0]
       z
  have "Gamma12_box (R_loop P_reco K0 U0 X_two ?c box0 (\<lambda>ct. 0) spin0 0 0 [rs0] ?b1) 0
          = Gamma12_box ?b1 0" by blast
  with t f a2 cr z show ?thesis by blast
qed


section \<open>The ionisation criterion\<close>

lemma find_ionised_cell_xH_centre:
  assumes "FIND_BUBBLE_ALGORITHM (global_params P) = 2" "R_index rspec \<noteq> 0"
  shows "xH_box (find_ionised_cell P K c rspec fg prev density spin ds fa fm ta tm box ct)
     = (if cell_crosses P c rspec fg prev density fa fm ta tm box ct
        then (xH_box box)(ct := 0) else xH_box box)"
  using assms
  by (simp add: find_ionised_cell_def ionised_cell_def Let_def)

lemma flag_fold_xH_centre:
  assumes "FIND_BUBBLE_ALGORITHM (global_params P) = 2" "R_index rspec \<noteq> 0"
  shows "xH_box (fold (\<lambda>ct b. find_ionised_cell P K c rspec fg prev density spin ds fa fm ta tm b ct)
            [0 ..< n] box) j
     = (if j < n \<and> cell_crosses P c rspec fg prev density fa fm ta tm box j
        then 0 else xH_box box j)"
proof (induction n)
  case 0
  then show ?case by simp
next
  case (Suc n)
  have "cell_crosses P c rspec fg prev density fa fm ta tm
          (fold (\<lambda>ct b. find_ionised_cell P K c rspec fg prev density spin ds fa fm ta tm b ct)
            [0 ..< n] box) n
        = cell_crosses P c rspec fg prev density fa fm ta tm box n"
    by (rule cell_crosses_cong) (simp_all add: flag_fold_frame)
  with Suc show ?case
    by (simp add: find_ionised_cell_xH_centre [OF assms] less_Suc_eq)
qed

lemma find_ionised_regions_xH_centre:
  assumes "FIND_BUBBLE_ALGORITHM (global_params P) = 2" "R_index rspec \<noteq> 0"
  shows "xH_box (find_ionised_regions P K c rspec fg prev density spin ds fa fm box) j
     = (if j < HII_TOT_NUM_PIXELS (user_params P)
           \<and> cell_crosses P c rspec fg prev density fa fm (mean_fix_term_acg c rspec box)
               (mean_fix_term_mcg c rspec box) box j
        then 0 else xH_box box j)"
proof -
  have "cell_crosses P c rspec fg prev density fa fm (mean_fix_term_acg c rspec box)
               (mean_fix_term_mcg c rspec box)
           (box\<lparr> mean_f_coll := f_coll_grid_mean rspec,
                 mean_f_coll_MINI := f_coll_grid_mean_MINI rspec \<rparr>) j
        = cell_crosses P c rspec fg prev density fa fm (mean_fix_term_acg c rspec box)
               (mean_fix_term_mcg c rspec box) box j"
    by (rule cell_crosses_cong) simp_all
  then show ?thesis
    by (auto simp add: find_ionised_regions_def Let_def flag_fold_xH_centre [OF assms])
qed

lemma cell_crosses_unfold:
  "cell_crosses P c rspec fg prev density fa fm ta tm box ct
     = (curr_fcoll_cell P rspec fa ta (curr_dens_cell P c fg density ct) box ct * ion_eff_factor c
          + curr_fcoll_mini_cell P rspec fm tm box ct * ion_eff_factor_mini c
        > (1 - (if USE_TS_FLUCT (flag_options P) then xe_filtered fg ct else 0))
          * (1 + (if INHOMO_RECO (flag_options P)
                  then (if CELL_RECOMB (flag_options P) then dNrec_box prev ct
                        else N_rec_filtered fg ct) / (1 + curr_dens_cell P c fg density ct)
                  else 0)))"
  by (simp add: cell_crosses_def barrier_crossed_def xHII_from_xrays_cell_def rec_cell_def
        Let_def)

text \<open>
  C1, as amended. For every cell and every radius, \<^verbatim>\<open>find_ionised_regions\<close> takes the
  ionised branch for the cell, recording its redshift of reionisation, exactly when
  \<open>f_coll \<sqdot> \<zeta> + f_coll_MINI \<sqdot> \<zeta>\<^sub>M\<^sub>I\<^sub>N\<^sub>I > (1 - x\<^sub>H\<^sub>I\<^sub>I\<^sub>,\<^sub>x\<^sub>r\<^sub>a\<^sub>y\<^sub>s) \<sqdot> (1 + N\<^sub>r\<^sub>e\<^sub>c / (1 + \<delta>))\<close>, strictly, with
  \<open>x\<^sub>H\<^sub>I\<^sub>I\<^sub>,\<^sub>x\<^sub>r\<^sub>a\<^sub>y\<^sub>s\<close> the filtered \<open>x_e\<close> (0 without the spin-temperature coupling) and
  \<open>N\<^sub>r\<^sub>e\<^sub>c\<close> the recombinations (0 without \<^verbatim>\<open>INHOMO_RECO\<close>); under the centre algorithm,
  above the cell scale, a cell with \<open>xH > 0\<close> ends the pass with \<open>xH = 0\<close> exactly then.
  Here \<open>f_coll\<close> and \<open>f_coll_MINI\<close> are the collapse fractions after mean fixing and
  flooring.
\<close>

theorem flagged_iff_strictly_above:
  assumes "ct < HII_TOT_NUM_PIXELS (user_params P)"
  shows "z_re_box (find_ionised_regions P K c rspec fg prev density spin ds fa fm box) ct
     = (if curr_fcoll_cell P rspec fa (mean_fix_term_acg c rspec box)
             (curr_dens_cell P c fg density ct) box ct * ion_eff_factor c
           + curr_fcoll_mini_cell P rspec fm (mean_fix_term_mcg c rspec box) box ct
               * ion_eff_factor_mini c
           > (1 - (if USE_TS_FLUCT (flag_options P) then xe_filtered fg ct else 0))
             * (1 + (if INHOMO_RECO (flag_options P)
                     then (if CELL_RECOMB (flag_options P) then dNrec_box prev ct
                           else N_rec_filtered fg ct) / (1 + curr_dens_cell P c fg density ct)
                     else 0))
        then first_ionised_redshift c prev ct else z_re_box box ct)
   \<and> (FIND_BUBBLE_ALGORITHM (global_params P) = 2 \<and> R_index rspec \<noteq> 0 \<and> xH_box box ct > 0
      \<longrightarrow> (xH_box (find_ionised_regions P K c rspec fg prev density spin ds fa fm box) ct = 0)
          = (curr_fcoll_cell P rspec fa (mean_fix_term_acg c rspec box)
               (curr_dens_cell P c fg density ct) box ct * ion_eff_factor c
             + curr_fcoll_mini_cell P rspec fm (mean_fix_term_mcg c rspec box) box ct
                 * ion_eff_factor_mini c
             > (1 - (if USE_TS_FLUCT (flag_options P) then xe_filtered fg ct else 0))
               * (1 + (if INHOMO_RECO (flag_options P)
                       then (if CELL_RECOMB (flag_options P) then dNrec_box prev ct
                             else N_rec_filtered fg ct)
                              / (1 + curr_dens_cell P c fg density ct)
                       else 0))))"
proof -
  note cu = cell_crosses_unfold [of P c rspec fg prev density fa fm
              "mean_fix_term_acg c rspec box" "mean_fix_term_mcg c rspec box" box ct]
  have a: "z_re_box (find_ionised_regions P K c rspec fg prev density spin ds fa fm box) ct
      = (if cell_crosses P c rspec fg prev density fa fm (mean_fix_term_acg c rspec box)
               (mean_fix_term_mcg c rspec box) box ct
         then first_ionised_redshift c prev ct else z_re_box box ct)"
    using assms by (simp add: find_ionised_regions_z_re)
  have b: "FIND_BUBBLE_ALGORITHM (global_params P) = 2 \<Longrightarrow> R_index rspec \<noteq> 0 \<Longrightarrow>
        xH_box box ct > 0 \<Longrightarrow>
        (xH_box (find_ionised_regions P K c rspec fg prev density spin ds fa fm box) ct = 0)
          = cell_crosses P c rspec fg prev density fa fm (mean_fix_term_acg c rspec box)
               (mean_fix_term_mcg c rspec box) box ct"
    using assms by (simp add: find_ionised_regions_xH_centre)
  from a b show ?thesis unfolding cu by blast
qed

theorem flagged_iff_strictly_above_witness:
  "(0::nat) < HII_TOT_NUM_PIXELS (user_params P0)
   \<and> FIND_BUBBLE_ALGORITHM (global_params P0) = 2 \<and> R_index rs1 \<noteq> 0
   \<and> xH_box (box0\<lparr> Fcoll := (\<lambda>i. 2), mean_f_coll := 1 \<rparr>) 0 > 0
   \<and> z_re_box (find_ionised_regions P0 K0 (set_ionbox_constants P0 K0 8 9) rs1 fg0 box0
        (\<lambda>ct. 0) spin0 (\<lambda>ct. 0) 0 0 (box0\<lparr> Fcoll := (\<lambda>i. 2), mean_f_coll := 1 \<rparr>)) 0 = 8
   \<and> xH_box (find_ionised_regions P0 K0 (set_ionbox_constants P0 K0 8 9) rs1 fg0 box0
        (\<lambda>ct. 0) spin0 (\<lambda>ct. 0) 0 0 (box0\<lparr> Fcoll := (\<lambda>i. 2), mean_f_coll := 1 \<rparr>)) 0 = 0"
proof -
  have n: "(0::nat) < HII_TOT_NUM_PIXELS (user_params P0)" by (simp add: P0_def)
  have h: "FIND_BUBBLE_ALGORITHM (global_params P0) = 2" "R_index rs1 \<noteq> 0"
    "xH_box (box0\<lparr> Fcoll := (\<lambda>i. 2), mean_f_coll := 1 \<rparr>) 0 > 0"
    by (simp_all add: P0_def rs1_def box0_def)
  from flagged_iff_strictly_above [OF n, of K0 "set_ionbox_constants P0 K0 8 9" rs1 fg0 box0
         "\<lambda>ct. 0" spin0 "\<lambda>ct. 0" 0 0 "box0\<lparr> Fcoll := (\<lambda>i. 2), mean_f_coll := 1 \<rparr>"]
  show ?thesis using n h
    by (simp add: model_defs fixture_defs Let_def)
qed

text \<open>
  The claim as stated, with \<open>\<ge>\<close>, fails: a neutral cell whose two sides are both 1 is
  left as it is, \<open>xH = 1\<close> and \<open>z_re = -1\<close>.
\<close>

theorem equality_does_not_flag:
  "(let c = set_ionbox_constants P0 K0 8 9;
        box = box0\<lparr> Fcoll := (\<lambda>i. 1), mean_f_coll := 1 \<rparr>;
        box' = find_ionised_regions P0 K0 c rs1 fg0 box0 (\<lambda>ct. 0) spin0 (\<lambda>ct. 0) 0 0 box
    in curr_fcoll_cell P0 rs1 0 (mean_fix_term_acg c rs1 box)
           (curr_dens_cell P0 c fg0 (\<lambda>ct. 0) 0) box 0 * ion_eff_factor c
         + curr_fcoll_mini_cell P0 rs1 0 (mean_fix_term_mcg c rs1 box) box 0
             * ion_eff_factor_mini c
       = (1 - xHII_from_xrays_cell P0 fg0 0)
           * (1 + rec_cell P0 fg0 box0 (curr_dens_cell P0 c fg0 (\<lambda>ct. 0) 0) 0)
       \<and> xH_box box 0 = 1 \<and> xH_box box' 0 = 1 \<and> z_re_box box' 0 = - 1)"
  by (simp add: model_defs fixture_defs Let_def)


section \<open>The mean collapse fractions in halo-field mode\<close>

lemma fcoll_index_inj: "fcoll_index P rspec ct = fcoll_index P rspec n \<longleftrightarrow> ct = n"
  by (simp add: fcoll_index_def)

lemma fcoll_cell_total:
  "fst (snd (snd (fcoll_cell P U T c rspec prev ct (box, fg, t, tm))))
     = t + Fcoll (fst (fcoll_cell P U T c rspec prev ct (box, fg, t, tm))) (fcoll_index P rspec ct)
   \<and> (\<forall>i. i \<noteq> fcoll_index P rspec ct \<longrightarrow>
        Fcoll (fst (fcoll_cell P U T c rspec prev ct (box, fg, t, tm))) i = Fcoll box i)
   \<and> (USE_HALO_FIELD (flag_options P) \<longrightarrow>
        snd (snd (snd (fcoll_cell P U T c rspec prev ct (box, fg, t, tm)))) = tm)"
  by (simp add: fcoll_cell_def fcoll_index_def Let_def split: prod.splits)

lemma fcoll_fold_total:
  "fst (snd (snd (fold (fcoll_cell P U T c rspec prev) [0 ..< n] (box, fg, t, tm))))
     = t + (\<Sum>ct<n. Fcoll (fst (fold (fcoll_cell P U T c rspec prev) [0 ..< n] (box, fg, t, tm)))
                      (fcoll_index P rspec ct))
   \<and> (USE_HALO_FIELD (flag_options P) \<longrightarrow>
        snd (snd (snd (fold (fcoll_cell P U T c rspec prev) [0 ..< n] (box, fg, t, tm)))) = tm)"
proof (induction n)
  case 0
  then show ?case by simp
next
  case (Suc n)
  obtain b fg' t' tm' where s':
    "fold (fcoll_cell P U T c rspec prev) [0 ..< n] (box, fg, t, tm) = (b, fg', t', tm')"
    by (cases "fold (fcoll_cell P U T c rspec prev) [0 ..< n] (box, fg, t, tm)") auto
  let ?s = "fcoll_cell P U T c rspec prev n (b, fg', t', tm')"
  note step = fcoll_cell_total [of P U T c rspec prev n b fg' t' tm']
  have same: "(\<Sum>ct<n. Fcoll (fst ?s) (fcoll_index P rspec ct))
            = (\<Sum>ct<n. Fcoll b (fcoll_index P rspec ct))"
  proof (rule sum.cong)
    fix ct assume "ct \<in> {..<n}"
    then have "fcoll_index P rspec ct \<noteq> fcoll_index P rspec n"
      by (simp add: fcoll_index_inj)
    with step show "Fcoll (fst ?s) (fcoll_index P rspec ct) = Fcoll b (fcoll_index P rspec ct)"
      by blast
  qed simp
  from Suc s' have ih: "t' = t + (\<Sum>ct<n. Fcoll b (fcoll_index P rspec ct))"
    "USE_HALO_FIELD (flag_options P) \<longrightarrow> tm' = tm" by simp_all
  show ?case using s' step same ih by simp
qed

lemma calculate_fcoll_grid_means:
  "f_coll_grid_mean (snd (snd (calculate_fcoll_grid P U T c rspec prev box fg)))
     = (f_coll_total0 U
          + (\<Sum>ct<HII_TOT_NUM_PIXELS (user_params P).
               Fcoll (fst (calculate_fcoll_grid P U T c rspec prev box fg))
                 (fcoll_index P rspec ct)))
       / real (HII_TOT_NUM_PIXELS (user_params P))
   \<and> (USE_HALO_FIELD (flag_options P) \<longrightarrow>
        f_coll_grid_mean_MINI (snd (snd (calculate_fcoll_grid P U T c rspec prev box fg)))
          = f_coll_MINI_total0 U / real (HII_TOT_NUM_PIXELS (user_params P)))"
proof -
  let ?n = "HII_TOT_NUM_PIXELS (user_params P)"
  obtain b fg' t' tm' where s':
    "fold (fcoll_cell P U T c rspec prev) [0 ..< ?n]
       (box, fg, f_coll_total0 U, f_coll_MINI_total0 U) = (b, fg', t', tm')"
    by (cases "fold (fcoll_cell P U T c rspec prev) [0 ..< ?n]
                 (box, fg, f_coll_total0 U, f_coll_MINI_total0 U)") auto
  from fcoll_fold_total [of P U T c rspec prev ?n box fg "f_coll_total0 U" "f_coll_MINI_total0 U"]
       s'
  show ?thesis by (simp add: calculate_fcoll_grid_def Let_def)
qed

lemma R_loop_snoc:
  "list_all (\<lambda>r. \<not> M_min c > RtoM K (R r)) (rs @ [r]) \<Longrightarrow>
   R_loop P K U X c prev density spin fa fm (rs @ [r]) box
     = radius_step P K U X c prev density spin fa fm r
         (R_loop P K U X c prev density spin fa fm rs box)"
  by (induction rs arbitrary: box) simp_all

lemma radius_step_Fcoll:
  "Fcoll (radius_step P K U X c prev density spin fa fm r box)
     = Fcoll (fst (radius_fcoll P U X c prev fa fm r box))"
  by (simp add: radius_step_def find_ionised_regions_def Let_def flag_fold_frame
        split: prod.splits)

text \<open>
  What the loop leaves in halo-field mode (\<^verbatim>\<open>fix_mean\<close> false), when it processes the
  radii \<open>rs\<close> and then \<open>r\<close>: the \<^verbatim>\<open>Fcoll\<close> grid of \<open>r\<close> and the means of that radius,
  not those set at snapshot entry. The mean of a radius is what \<^verbatim>\<open>calculate_fcoll_grid\<close>
  hands over, the value its accumulator \<^verbatim>\<open>f_coll_total\<close> holds on entry plus the sum of
  the grid, over the number of cells, which the loop then raises to a floor:
  \<^verbatim>\<open>f_limit_acg\<close> with the mass-dependent \<open>\<zeta>\<close> and \<^verbatim>\<open>FRACT_FLOAT_ERR\<close> without. Nothing
  is added to \<^verbatim>\<open>f_coll_MINI_total\<close> in this mode.
\<close>

lemma halo_mode_means_of_last_radius:
  assumes halo: "USE_HALO_FIELD (flag_options P)" and nofix: "\<not> fix_mean c"
    and pass: "list_all (\<lambda>r. \<not> M_min c > RtoM K (R r)) (rs @ [r])"
  shows "(let b = R_loop P K U X c prev density spin fa fm (rs @ [r]) box;
              b1 = fst (radius_fcoll P U X c prev fa fm r
                          (R_loop P K U X c prev density spin fa fm rs box));
              n = HII_TOT_NUM_PIXELS (user_params P);
              avg = (f_coll_total0 U + (\<Sum>ct<n. Fcoll b1 (fcoll_index P r ct))) / real n;
              avg_mini = f_coll_MINI_total0 U / real n
          in mean_f_coll b
               = (if USE_MASS_DEPENDENT_ZETA (flag_options P)
                  then (if avg \<le> fa then fa else avg)
                  else (if avg \<le> FRACT_FLOAT_ERR (consts_h P)
                        then FRACT_FLOAT_ERR (consts_h P) else avg))
             \<and> mean_f_coll_MINI b
               = (if USE_MASS_DEPENDENT_ZETA (flag_options P) \<and> USE_MINI_HALOS (flag_options P)
                     \<and> avg_mini \<le> fm
                  then fm else avg_mini)
             \<and> Fcoll b = Fcoll b1)"
proof -
  let ?b0 = "R_loop P K U X c prev density spin fa fm rs box"
  let ?T = "tables X (R_index r)"
  let ?fg = "filtered X (R_index r)"
  have rf: "radius_fcoll P U X c prev fa fm r ?b0
      = (fst (calculate_fcoll_grid P U ?T c r prev ?b0 ?fg),
         fst (snd (calculate_fcoll_grid P U ?T c r prev ?b0 ?fg)),
         floor_grid_means P fa fm (snd (snd (calculate_fcoll_grid P U ?T c r prev ?b0 ?fg))))"
    using halo by (simp add: radius_fcoll_def Let_def split: prod.splits)
  note m = calculate_fcoll_grid_means [of P U ?T c r prev ?b0 ?fg]
  from R_loop_snoc [OF pass] radius_step_means [OF nofix, of P K U X prev density spin fa fm r ?b0]
       radius_step_Fcoll [of P K U X c prev density spin fa fm r ?b0]
  show ?thesis
    using halo m unfolding rf
    by (simp add: Let_def floor_grid_means_def)
qed

text \<open>
  An instance with two radii and the locals holding 5 and 3.
\<close>

lemma halo_mode_means_of_last_radius_instance:
  "USE_HALO_FIELD (flag_options P_halo) \<and> \<not> fix_mean (set_ionbox_constants P_halo K0 8 9)
   \<and> list_all (\<lambda>r. \<not> M_min (set_ionbox_constants P_halo K0 8 9) > RtoM K0 (R r)) ([rs1] @ [rs0])
   \<and> mean_f_coll (R_loop P_halo K0 U_stale X_stars (set_ionbox_constants P_halo K0 8 9) box0
        (\<lambda>ct. 0) spin0 (1 / 100) 0 ([rs1] @ [rs0]) (box0\<lparr> mean_f_coll := 1 \<rparr>)) = 11 / 2
   \<and> mean_f_coll_MINI (R_loop P_halo K0 U_stale X_stars (set_ionbox_constants P_halo K0 8 9) box0
        (\<lambda>ct. 0) spin0 (1 / 100) 0 ([rs1] @ [rs0]) (box0\<lparr> mean_f_coll := 1 \<rparr>)) = 3"
proof -
  let ?c = "set_ionbox_constants P_halo K0 8 9"
  have a: "USE_HALO_FIELD (flag_options P_halo)" by (simp add: P_halo_def P0_def)
  have b: "\<not> fix_mean ?c" by (simp add: set_ionbox_constants_def P_halo_def P0_def Let_def)
  have p: "list_all (\<lambda>r. \<not> M_min ?c > RtoM K0 (R r)) ([rs1] @ [rs0])"
    by (simp add: set_ionbox_constants_def P_halo_def fixture_defs Let_def)
  have f: "Fcoll (fst (radius_fcoll P_halo U_stale X_stars ?c box0 (1 / 100) 0 rs0
             (R_loop P_halo K0 U_stale X_stars ?c box0 (\<lambda>ct. 0) spin0 (1 / 100) 0 [rs1]
                (box0\<lparr> mean_f_coll := 1 \<rparr>)))) (fcoll_index P_halo rs0 0) = 1 / 2"
    by (simp add: model_defs fixture_defs P_halo_def U_stale_def X_stars_def Let_def)
  from halo_mode_means_of_last_radius [OF a b p, where U = U_stale and X = X_stars
         and prev = box0 and density = "\<lambda>ct. 0" and spin = spin0 and fa = "1 / 100"
         and fm = 0 and box = "box0\<lparr> mean_f_coll := 1 \<rparr>"] f
  show ?thesis using a b p
    by (simp add: Let_def P_halo_def P0_def U0_def U_stale_def)
qed

text \<open>
  The floor on its own: a box whose \<^verbatim>\<open>Fcoll\<close> grid is 0 in its one cell, the
  accumulators starting from 0, ends with \<^verbatim>\<open>mean_f_coll = f_limit_acg = 1/100\<close>.
\<close>

lemma halo_mode_mean_is_floored:
  "map_sum id (\<lambda>b. (mean_f_coll b, Fcoll b 0, mean_f_coll_MINI b))
     (ComputeIonizedBox P_halo K0 U0 X0 8 9 (\<lambda>ct. 0) box0 spin0 box0) = Inr (1 / 100, 0, 0)
   \<and> f_coll_total0 U0 = 0 \<and> HII_TOT_NUM_PIXELS (user_params P_halo) = 1"
  by (simp add: model_defs fixture_defs P_halo_def Let_def)

text \<open>
  With accumulators that start from 0 and a grid above the floor, the means after the
  loop are the box averages of the last radius, the cell scale: \<open>1/2\<close> for the star grid
  of \<open>1/2\<close> in the one cell, and 0 for the minihalos.
\<close>

lemma halo_mode_means_with_clean_locals:
  "map_sum id (\<lambda>b. (mean_f_coll b, Fcoll b 0, mean_f_coll_MINI b, Fcoll_MINI b 0))
     (ComputeIonizedBox P_halo K0 U0 X_stars 8 9 (\<lambda>ct. 0) box0 spin0 box0)
     = Inr (1 / 2, 1 / 2, 0, 0)"
  by (simp add: model_defs fixture_defs P_halo_def X_stars_def Let_def)

text \<open>
  C10. \<^verbatim>\<open>calculate_fcoll_grid\<close> declares \<^verbatim>\<open>f_coll_total\<close> and \<^verbatim>\<open>f_coll_MINI_total\<close> without
  an initial value and adds the grid to whatever they hold, so the means that
  \<^verbatim>\<open>find_ionised_regions\<close> copies into the box at every radius are not the box averages
  of that radius. On the same two radii, with the locals holding 5 and 3 on entry, the
  snapshot ends with \<^verbatim>\<open>Fcoll\<close> \<open>= 1/2\<close> in its one cell and \<^verbatim>\<open>Fcoll_MINI\<close> \<open>= 0\<close>, but
  with \<^verbatim>\<open>mean_f_coll\<close> \<open>= 11/2\<close> and \<^verbatim>\<open>mean_f_coll_MINI\<close> \<open>= 3\<close>, where the box averages
  of the last radius are \<open>1/2\<close> and 0. The floor plays no part: \<open>1/2\<close> is above
  \<^verbatim>\<open>f_limit_acg = 1/100\<close>.
\<close>

theorem halo_mode_means_hold_stale_locals:
  "map_sum id (\<lambda>b. (mean_f_coll b, Fcoll b 0, mean_f_coll_MINI b, Fcoll_MINI b 0))
     (ComputeIonizedBox P_halo K0 U_stale X_stars 8 9 (\<lambda>ct. 0) box0 spin0 box0)
     = Inr (11 / 2, 1 / 2, 3, 0)
   \<and> HII_TOT_NUM_PIXELS (user_params P_halo) = 1"
  by (simp add: model_defs fixture_defs P_halo_def U_stale_def X_stars_def Let_def)


section \<open>The radii of the shells\<close>

lemma z_edges_step_R_values: "R_values (z_edges_step P K zp r S) = R_values S @ [r]"
  by (simp add: z_edges_step_def Let_def)

lemma z_edges_loop_R_values:
  "R_values (z_edges_loop P K zp f n r S) = R_values S @ map (\<lambda>k. r * f ^ k) [0 ..< n]"
proof (induction n arbitrary: r S)
  case 0
  then show ?case by simp
next
  case (Suc n)
  have "map (\<lambda>k. r * f ^ k) [0 ..< Suc n] = r # map (\<lambda>k. r * f * f ^ k) [0 ..< n]"
    by (simp add: upt_conv_Cons map_Suc_upt [symmetric] del: upt_Suc)
  with Suc show ?case by (simp add: z_edges_step_R_values del: upt_Suc)
qed

lemma setup_z_edges_R_values:
  "R_values (setup_z_edges P K zp)
     = map (\<lambda>k. R_cell P * R_factor_of P ^ k) [0 ..< NUM_FILTER_STEPS_FOR_Ts (global_params P)]"
  by (simp add: setup_z_edges_def z_edges_loop_R_values)

lemma four_powr_half: "(4::real) powr (1 / 2) = 2"
proof -
  have "(4::real) powr (1 / 2) = sqrt 4" by (simp add: powr_half_sqrt)
  also have "\<dots> = 2" by simp
  finally show ?thesis .
qed

text \<open>
  C8, as amended. The schedule has \<^verbatim>\<open>NUM_FILTER_STEPS_FOR_Ts\<close> radii, the first is the
  cell scale \<open>R\<^sub>0 = L_FACTOR \<sqdot> BOX_LEN / HII_DIM\<close>, and each next one is the one before
  times \<open>(R_XLy_MAX / R\<^sub>0)\<close> to the power \<open>1 / NUM_FILTER_STEPS_FOR_Ts\<close>: a geometric
  progression from the cell scale whose exponent has the number of shells, not that
  number less one.
\<close>

theorem shell_radii_geometric:
  "length (R_values (setup_z_edges P K zp)) = NUM_FILTER_STEPS_FOR_Ts (global_params P)
   \<and> (0 < NUM_FILTER_STEPS_FOR_Ts (global_params P) \<longrightarrow>
        R_values (setup_z_edges P K zp) ! 0
          = L_FACTOR (consts_h P) * BOX_LEN (user_params P) / real (HII_DIM (user_params P)))
   \<and> (\<forall>k. Suc k < NUM_FILTER_STEPS_FOR_Ts (global_params P) \<longrightarrow>
        R_values (setup_z_edges P K zp) ! Suc k
          = R_values (setup_z_edges P K zp) ! k
            * (R_XLy_MAX (global_params P) / R_values (setup_z_edges P K zp) ! 0)
                powr (1 / real (NUM_FILTER_STEPS_FOR_Ts (global_params P))))"
  by (simp add: setup_z_edges_R_values R_cell_def R_factor_of_def)

theorem shell_radii_geometric_witness:
  "length (R_values (setup_z_edges P0 K0 10)) = 2
   \<and> (0::nat) < NUM_FILTER_STEPS_FOR_Ts (global_params P0)
   \<and> R_values (setup_z_edges P0 K0 10) ! 0 = 1
   \<and> Suc 0 < NUM_FILTER_STEPS_FOR_Ts (global_params P0)
   \<and> R_values (setup_z_edges P0 K0 10) ! Suc 0 = R_values (setup_z_edges P0 K0 10) ! 0 * 2"
proof -
  have n: "NUM_FILTER_STEPS_FOR_Ts (global_params P0) = 2" by (simp add: P0_def)
  from shell_radii_geometric [of P0 K0 10]
  have "length (R_values (setup_z_edges P0 K0 10)) = 2"
    and "R_values (setup_z_edges P0 K0 10) ! 0 = 1"
    and "R_values (setup_z_edges P0 K0 10) ! Suc 0
           = R_values (setup_z_edges P0 K0 10) ! 0 * (4 / R_values (setup_z_edges P0 K0 10) ! 0)
               powr (1 / 2)"
    by (simp_all add: P0_def)
  then show ?thesis using n four_powr_half by simp
qed

text \<open>
  The claim as stated, with the exponent \<open>1 / (NSHELL - 1)\<close> and a last radius of
  \<^verbatim>\<open>R_XLy_MAX\<close>, fails: two shells from a cell scale of 1 to \<^verbatim>\<open>R_XLy_MAX = 4\<close> have
  the radii 1 and 2.
\<close>

theorem shell_radii_stop_short:
  "R_values (setup_z_edges P0 K0 10) = [1, 2]
   \<and> NUM_FILTER_STEPS_FOR_Ts (global_params P0) = 2 \<and> R_XLy_MAX (global_params P0) = 4
   \<and> R_values (setup_z_edges P0 K0 10) ! 1
       \<noteq> R_values (setup_z_edges P0 K0 10) ! 0
           * (R_XLy_MAX (global_params P0) / R_values (setup_z_edges P0 K0 10) ! 0)
               powr (1 / real (NUM_FILTER_STEPS_FOR_Ts (global_params P0) - 1))
   \<and> last (R_values (setup_z_edges P0 K0 10)) \<noteq> R_XLy_MAX (global_params P0)"
proof -
  have f: "R_factor_of P0 = 2"
    using four_powr_half by (simp add: R_factor_of_def R_cell_def P0_def)
  have n: "NUM_FILTER_STEPS_FOR_Ts (global_params P0) = 2" by (simp add: P0_def)
  have c: "R_cell P0 = 1" by (simp add: R_cell_def P0_def)
  have r: "R_values (setup_z_edges P0 K0 10) = [1, 2]"
    by (simp add: setup_z_edges_R_values f n c upt_two)
  show ?thesis unfolding r by (simp add: P0_def)
qed


section \<open>A catalogue without halos\<close>

text \<open>
  A halo of mass zero is skipped and only counted as cut, so a catalogue of such halos
  leaves the grids as the first loop of \<^verbatim>\<open>ComputeHaloBox\<close> made them, and the averages
  take the branch of the source for no halos. Outside the fixed-grid and sub-sampler
  modes the eight grids that the first loop names are zero and the turnovers are the
  no-feedback ones; the X-ray grid is what the buffer held on entry, per cell volume.
\<close>

lemma sum_halo_cut:
  "halo_masses halos i = 0 \<Longrightarrow>
   sum_halo P HK c vcb ts ion halos i (grids, acc, n) = (grids, acc, Suc n)"
  by (simp add: sum_halo_def)

lemma sum_halos_all_cut:
  "(\<forall>i < n. halo_masses halos i = 0) \<Longrightarrow>
   fold (sum_halo P HK c vcb ts ion halos) [0 ..< n] (grids, acc, k) = (grids, acc, k + n)"
  by (induction n) (simp_all add: sum_halo_cut)

lemma no_halos_onto_grid:
  assumes "\<forall>i < n_halos halos. halo_masses halos i = 0"
  shows "sum_halos_onto_grid P HK c vcb ts ion halos grids
     = (to_density P grids,
        zero_props\<lparr> m_turn_acg := mturn_a_nofb_hb c, m_turn_mcg := mturn_m_nofb c \<rparr>)"
  using sum_halos_all_cut [OF assms, of P HK c vcb ts ion grids zero_props 0]
  by (simp add: sum_halos_onto_grid_def zero_props_def Let_def)

lemma no_halos_halo_box:
  assumes none: "\<forall>i < n_halos halos. halo_masses halos i = 0"
    and mode: "\<not> FIXED_HALO_GRIDS (flag_options P)"
      "\<not> (AVG_BELOW_SAMPLER (user_params P)
          \<and> minimum_source_mass K z < SAMPLER_MIN_MASS (user_params P))"
    and ct: "ct < HII_TOT_NUM_PIXELS (user_params P)"
  shows "(let r = ComputeHaloBox P K HK vcb0 z vcb halos ts ion grids
          in halo_mass_grid (fst r) ct = 0 \<and> halo_stars (fst r) ct = 0
             \<and> halo_stars_mini (fst r) ct = 0 \<and> n_ion_grid (fst r) ct = 0
             \<and> halo_sfr_grid (fst r) ct = 0 \<and> halo_sfr_mini (fst r) ct = 0
             \<and> whalo_sfr (fst r) ct = 0 \<and> count (fst r) ct = 0
             \<and> halo_xray_grid (fst r) ct
                 = halo_xray_grid grids ct
                   / (VOLUME (user_params P) / real (HII_TOT_NUM_PIXELS (user_params P)))
             \<and> m_turn_acg (snd r) = mturn_a_nofb_hb (set_hbox_constants P K HK vcb0 z)
             \<and> m_turn_mcg (snd r) = mturn_m_nofb (set_hbox_constants P K HK vcb0 z)
             \<and> m_turn_reion (snd r) = 0)"
proof -
  have m: "(AVG_BELOW_SAMPLER (user_params P)
            \<and> minimum_source_mass K z < SAMPLER_MIN_MASS (user_params P)) = False"
    using mode(2) by simp
  show ?thesis
    using mode(1) ct
    by (simp add: ComputeHaloBox_def Let_def m no_halos_onto_grid [OF none] to_density_def
          zero_grids_def zero_props_def)
qed

text \<open>
  C9. The X-ray grid is not among the grids that \<^verbatim>\<open>ComputeHaloBox\<close> sets to zero, and
  \<^verbatim>\<open>sum_halos_onto_grid\<close> only adds to it and divides it by the cell volume. With a
  catalogue whose only halo has mass zero and an X-ray buffer that holds 3 on entry, the
  X-ray grid of the result is 3 in a cell of unit volume, while the halo mass, the star
  formation rate and the count are zero and the average ACG turnover is the no-feedback
  value \<^verbatim>\<open>M_TURN\<close>.
\<close>

theorem xray_grid_not_zeroed:
  "(let r = ComputeHaloBox P0 K0 HK0 0 8 (\<lambda>i. 0) halos0 spin0 box0 hb0
    in (halo_xray_grid (fst r) 0, halo_mass_grid (fst r) 0, halo_sfr_grid (fst r) 0,
        count (fst r) 0, m_turn_acg (snd r))) = (3, 0, 0, 0, 1)"
  by (simp add: ComputeHaloBox_def sum_halos_onto_grid_def sum_halo_def to_density_def
        zero_grids_def zero_props_def set_hbox_constants_def get_mean_log10_turnovers_def
        HK0_def hb0_def halos0_def P0_def K0_def Let_def)

end
